theory Spec2Isabelle
  imports Main
begin

section \<open>Python values used by the whisper client\<close>

text \<open>
  The client (\<^verbatim>\<open>whisper_client.py\<close>) sends an audio file to a whisper.cpp server and
  renders the reply. The embedding follows the source function by function. Strings are
  lists of code points below 256; an exception of the source is a value of \<open>py_error\<close>.
\<close>

datatype py_error =
    TypeError | ValueError | OverflowError | AttributeError | JSONDecodeError
  | UnicodeDecodeError | MarkupError | RuntimeError | OSError | InvalidURL

subsection \<open>Strings: \<^verbatim>\<open>str.strip\<close>, \<^verbatim>\<open>str.lower\<close>, \<^verbatim>\<open>str.startswith\<close>\<close>

definition is_space :: "char \<Rightarrow> bool" where
  "is_space c = ((of_char c :: nat) \<in> {9, 10, 11, 12, 13, 28, 29, 30, 31, 32, 133, 160})"

definition strip :: "string \<Rightarrow> string" where
  "strip s = rev (dropWhile is_space (rev (dropWhile is_space s)))"

definition lower_char :: "char \<Rightarrow> char" where
  "lower_char c =
     (let n = (of_char c :: nat)
      in if (65 \<le> n \<and> n \<le> 90) \<or> (192 \<le> n \<and> n \<le> 214) \<or> (216 \<le> n \<and> n \<le> 222)
         then char_of (n + 32) else c)"

definition lower :: "string \<Rightarrow> string" where
  "lower s = map lower_char s"

definition startswith :: "string \<Rightarrow> string \<Rightarrow> bool" where
  "startswith s p = (take (length p) s = p)"

subsection \<open>Decimal formatting of integers: \<^verbatim>\<open>str(n)\<close> and the format \<^verbatim>\<open>0wd\<close>\<close>

definition digit_char :: "nat \<Rightarrow> char" where
  "digit_char d = ''0123456789'' ! d"

fun digits :: "nat \<Rightarrow> string" where
  "digits n = (if n < 10 then [digit_char n] else digits (n div 10) @ [digit_char (n mod 10)])"

declare digits.simps [simp del]

definition zfill :: "nat \<Rightarrow> string \<Rightarrow> string" where
  "zfill w s = replicate (w - length s) (CHR ''0'') @ s"

definition str_int :: "int \<Rightarrow> string" where
  "str_int n = (if n < 0 then ''-'' @ digits (nat (- n)) else digits (nat n))"

text \<open>
  \<^verbatim>\<open>f"{n:0wd}"\<close>: the sign comes first and counts in the width, zeros fill the rest.
\<close>

definition fmt_d :: "nat \<Rightarrow> int \<Rightarrow> string" where
  "fmt_d w n =
     (if n < 0 then ''-'' @ zfill (w - 1) (digits (nat (- n))) else zfill w (digits (nat n)))"

subsection \<open>Floats: IEEE binary64, round to nearest, ties to even\<close>

text \<open>
  \<open>Finite m e\<close> is the number \<open>m * 2 ^ e\<close>. \<open>fl_round m e\<close> is the double nearest to that
  number: at most 53 significant bits, no exponent below the least subnormal one
  (\<open>-1074\<close>), and infinity from \<open>2 ^ 1024\<close> on.
\<close>

datatype pyfloat = Finite int int | PosInf | NegInf | NaN

fun bits :: "nat \<Rightarrow> nat" where
  "bits n = (if n = 0 then 0 else Suc (bits (n div 2)))"

declare bits.simps [simp del]

definition round_half_even_shift :: "int \<Rightarrow> nat \<Rightarrow> int" where
  "round_half_even_shift m k =
     (if k = 0 then m
      else let fl = m div 2 ^ k; r = m mod 2 ^ k; half = 2 ^ (k - 1)
           in if r < half then fl
              else if half < r then fl + 1
              else if even fl then fl else fl + 1)"

definition fl_round :: "int \<Rightarrow> int \<Rightarrow> pyfloat" where
  "fl_round m e =
     (let sh = max (int (bits (nat \<bar>m\<bar>)) - 53) (- 1074 - e);
          q = (if sh \<le> 0 then m else round_half_even_shift m (nat sh));
          e' = (if sh \<le> 0 then e else e + sh)
      in if 1024 < int (bits (nat \<bar>q\<bar>)) + e'
         then (if 0 < q then PosInf else NegInf)
         else Finite q e')"

text \<open>\<^verbatim>\<open>x * y\<close> on floats, for the finite right operand the source uses.\<close>

fun fl_mul :: "pyfloat \<Rightarrow> int \<Rightarrow> pyfloat" where
  "fl_mul (Finite m e) k = fl_round (m * k) e"
| "fl_mul PosInf k = (if 0 < k then PosInf else if k < 0 then NegInf else NaN)"
| "fl_mul NegInf k = (if 0 < k then NegInf else if k < 0 then PosInf else NaN)"
| "fl_mul NaN k = NaN"

text \<open>
  \<^verbatim>\<open>round(x)\<close> of a float: the nearest integer, ties to even; \<^verbatim>\<open>ValueError\<close> on NaN
  and \<^verbatim>\<open>OverflowError\<close> on an infinity.
\<close>

fun py_round :: "pyfloat \<Rightarrow> py_error + int" where
  "py_round (Finite m e) =
     Inr (if 0 \<le> e then m * 2 ^ nat e else round_half_even_shift m (nat (- e)))"
| "py_round PosInf = Inl OverflowError"
| "py_round NegInf = Inl OverflowError"
| "py_round NaN = Inl ValueError"

subsection \<open>JSON values\<close>

text \<open>
  What \<^verbatim>\<open>response.json()\<close> returns. An object is an association list whose first binding
  of a key is the dictionary's value; \<open>JNull\<close> is Python's \<^verbatim>\<open>None\<close>.
\<close>

datatype json =
    JNull
  | JBool bool
  | JInt int
  | JFloat pyfloat
  | JStr string
  | JList "json list"
  | JObj "(string \<times> json) list"

definition has_key :: "(string \<times> json) list \<Rightarrow> string \<Rightarrow> bool" where
  "has_key d k = (case map_of d k of None \<Rightarrow> False | Some v \<Rightarrow> True)"

text \<open>\<^verbatim>\<open>d.get(k)\<close>: the value, or \<^verbatim>\<open>None\<close> when the key is absent.\<close>

definition dict_get :: "(string \<times> json) list \<Rightarrow> string \<Rightarrow> json" where
  "dict_get d k = (case map_of d k of None \<Rightarrow> JNull | Some v \<Rightarrow> v)"

fun is_zero :: "pyfloat \<Rightarrow> bool" where
  "is_zero (Finite m e) = (m = 0)"
| "is_zero _ = False"

text \<open>Truth value of a Python object, as \<^verbatim>\<open>if x:\<close> and \<^verbatim>\<open>x or y\<close> test it.\<close>

fun truthy :: "json \<Rightarrow> bool" where
  "truthy JNull = False"
| "truthy (JBool b) = b"
| "truthy (JInt i) = (i \<noteq> 0)"
| "truthy (JFloat f) = (\<not> is_zero f)"
| "truthy (JStr s) = (s \<noteq> [])"
| "truthy (JList xs) = (xs \<noteq> [])"
| "truthy (JObj d) = (d \<noteq> [])"

section \<open>The time formatter\<close>

text \<open>
  \<^verbatim>\<open>float(value)\<close>. Parsing a string is the library's: \<open>str2f s\<close> is the float that
  \<^verbatim>\<open>float(s)\<close> returns, \<open>None\<close> when it raises \<^verbatim>\<open>ValueError\<close>.
\<close>

fun to_float :: "(string \<Rightarrow> pyfloat option) \<Rightarrow> json \<Rightarrow> py_error + pyfloat" where
  "to_float str2f JNull = Inl TypeError"
| "to_float str2f (JBool b) = Inr (Finite (if b then 1 else 0) 0)"
| "to_float str2f (JInt i) =
     (case fl_round i 0 of Finite m e \<Rightarrow> Inr (Finite m e) | _ \<Rightarrow> Inl OverflowError)"
| "to_float str2f (JFloat f) = Inr f"
| "to_float str2f (JStr s) = (case str2f s of None \<Rightarrow> Inl ValueError | Some f \<Rightarrow> Inr f)"
| "to_float str2f (JList xs) = Inl TypeError"
| "to_float str2f (JObj d) = Inl TypeError"

text \<open>\<^verbatim>\<open>int(round(float(value) * 1000))\<close>, with the exception it may raise.\<close>

definition total_ms_of :: "(string \<Rightarrow> pyfloat option) \<Rightarrow> json \<Rightarrow> py_error + int" where
  "total_ms_of str2f v =
     (case to_float str2f v of
        Inl err \<Rightarrow> Inl err
      | Inr f \<Rightarrow> py_round (fl_mul f 1000))"

text \<open>The formatting after the \<^verbatim>\<open>try\<close> block: three \<^verbatim>\<open>divmod\<close>s and an f-string.\<close>

definition format_ms :: "int \<Rightarrow> string" where
  "format_ms total_ms =
     (let hours = total_ms div (3600 * 1000); rem = total_ms mod (3600 * 1000);
          minutes = rem div (60 * 1000); rem2 = rem mod (60 * 1000);
          seconds = rem2 div 1000; millis = rem2 mod 1000
      in if hours \<noteq> 0
         then fmt_d 2 hours @ '':'' @ fmt_d 2 minutes @ '':'' @ fmt_d 2 seconds @ ''.''
              @ fmt_d 3 millis
         else fmt_d 2 minutes @ '':'' @ fmt_d 2 seconds @ ''.'' @ fmt_d 3 millis)"

definition format_seconds :: "(string \<Rightarrow> pyfloat option) \<Rightarrow> json \<Rightarrow> py_error + string" where
  "format_seconds str2f v =
     (if v = JNull then Inr ''-''
      else case total_ms_of str2f v of
             Inl err \<Rightarrow> (if err = TypeError \<or> err = ValueError then Inr ''-'' else Inl err)
           | Inr total_ms \<Rightarrow> Inr (format_ms total_ms))"

section \<open>Console markup\<close>

text \<open>
  \<^verbatim>\<open>rich\<close> reads every \<^verbatim>\<open>str\<close> it prints as console markup
  (\<^verbatim>\<open>rich.markup.render\<close>). A tag is an opening bracket, one of the characters
  \<^verbatim>\<open>a-z # / @\<close>, then characters other than an opening bracket up to the first closing
  bracket; an odd number of backslashes before it escapes it. A closing tag that has no
  open tag to close raises \<^verbatim>\<open>MarkupError\<close>. Two functions of the library are taken as
  they are: \<^verbatim>\<open>Style.normalize\<close>, and whether the parameters of a closed \<^verbatim>\<open>@\<close> tag
  evaluate as a Python literal.
\<close>

record rich_lib =
  normalize :: "string \<Rightarrow> string"
  literal_ok :: "string \<Rightarrow> bool"

definition tag_start :: "char \<Rightarrow> bool" where
  "tag_start c =
     (let n = (of_char c :: nat)
      in (97 \<le> n \<and> n \<le> 122) \<or> c = CHR ''#'' \<or> c = CHR ''/'' \<or> c = CHR ''@'')"

text \<open>
  The texts of the tags that are not escaped, in order (\<^verbatim>\<open>RE_TAGS.finditer\<close> in
  \<^verbatim>\<open>_parse\<close>): \<open>n\<close> counts the backslashes just before, and the second argument is
  the tag being read, with whether it is escaped and its text so far, reversed.
\<close>

fun scan_tags :: "nat \<Rightarrow> (bool \<times> string) option \<Rightarrow> string \<Rightarrow> string list" where
  "scan_tags n cur [] = []"
| "scan_tags n None (c # cs) =
     (if c = CHR 0x5C then scan_tags (Suc n) None cs
      else if c = CHR ''['' then scan_tags 0 (Some (odd n, [])) cs
      else scan_tags 0 None cs)"
| "scan_tags n (Some (escaped, body)) (c # cs) =
     (if body = [] then
        (if tag_start c then scan_tags 0 (Some (escaped, [c])) cs
         else if c = CHR 0x5C then scan_tags 1 None cs
         else if c = CHR ''['' then scan_tags 0 (Some (False, [])) cs
         else scan_tags 0 None cs)
      else if c = CHR '']'' then
        (if escaped then scan_tags 0 None cs else rev body # scan_tags 0 None cs)
      else if c = CHR ''['' then scan_tags 0 (Some (odd n, [])) cs
      else if c = CHR 0x5C then scan_tags (Suc n) (Some (escaped, c # body)) cs
      else scan_tags 0 (Some (escaped, c # body)) cs)"

text \<open>\<^verbatim>\<open>tag_text.partition("=")\<close>: the name, and the parameters if there is a \<open>=\<close>.\<close>

definition tag_name :: "string \<Rightarrow> string" where
  "tag_name t = takeWhile (\<lambda>c. c \<noteq> CHR ''='') t"

definition tag_parameters :: "string \<Rightarrow> string option" where
  "tag_parameters t =
     (if CHR ''='' \<in> set t then Some (drop 1 (dropWhile (\<lambda>c. c \<noteq> CHR ''='') t)) else None)"

type_synonym open_tag = "string \<times> string option"

text \<open>\<^verbatim>\<open>pop_style\<close>: take out the topmost open tag of that name; the stack has its top first.\<close>

fun pop_style :: "string \<Rightarrow> open_tag list \<Rightarrow> (open_tag \<times> open_tag list) option" where
  "pop_style style_name [] = None"
| "pop_style style_name (t # stack) =
     (if fst t = style_name then Some (t, stack)
      else case pop_style style_name stack of
             None \<Rightarrow> None
           | Some (found, stack') \<Rightarrow> Some (found, t # stack'))"

definition handler_ok :: "rich_lib \<Rightarrow> open_tag \<Rightarrow> bool" where
  "handler_ok lib t =
     (if take 1 (fst t) = ''@''
      then (case snd t of None \<Rightarrow> True | Some p \<Rightarrow> if p = [] then True else literal_ok lib p)
      else True)"

text \<open>The loop of \<^verbatim>\<open>render\<close> over the tags: \<open>False\<close> when it raises \<^verbatim>\<open>MarkupError\<close>.\<close>

fun run_tags :: "rich_lib \<Rightarrow> open_tag list \<Rightarrow> string list \<Rightarrow> bool" where
  "run_tags lib stack [] = True"
| "run_tags lib stack (t # ts) =
     (if take 1 (tag_name t) = ''/'' then
        (case (if strip (drop 1 (tag_name t)) = []
               then (case stack of [] \<Rightarrow> None | latest # rest \<Rightarrow> Some (latest, rest))
               else pop_style (normalize lib (strip (drop 1 (tag_name t)))) stack)
         of None \<Rightarrow> False
          | Some (found, stack') \<Rightarrow> handler_ok lib found \<and> run_tags lib stack' ts)
      else run_tags lib ((normalize lib (tag_name t), tag_parameters t) # stack) ts)"

definition markup_ok :: "rich_lib \<Rightarrow> string \<Rightarrow> bool" where
  "markup_ok lib s = (if CHR ''['' \<in> set s then run_tags lib [] (scan_tags 0 None s) else True)"

section \<open>Rendering the response\<close>

text \<open>
  What \<^verbatim>\<open>console.print\<close> receives. A panel has a title and a content: a \<^verbatim>\<open>str\<close>
  (console markup), a \<^verbatim>\<open>Text\<close>, the payload handed to \<^verbatim>\<open>JSON.from_data\<close>, or
  the request summary (status code, reason phrase, elapsed seconds). A table has a title and
  its rows: index, start, end, text.
\<close>

datatype content =
    Str string
  | Text string
  | Json json
  | Summary int string pyfloat

type_synonym row = "string \<times> string \<times> string \<times> string"

datatype renderable =
    Panel string content
  | Table string "row list"

text \<open>
  A run of the renderer is the list of what it printed, in order, and the exception that
  ended it, if any.
\<close>

type_synonym rendering = "renderable list \<times> py_error option"

subsection \<open>\<^verbatim>\<open>console.print\<close>\<close>

text \<open>
  Printing renders the whole renderable before anything is written. A title and a
  \<^verbatim>\<open>str\<close> content are markup, and so is every cell of a table row; a \<^verbatim>\<open>Text\<close>, the
  JSON view and the summary (built with \<^verbatim>\<open>Text.append\<close>) are not.
\<close>

fun content_ok :: "rich_lib \<Rightarrow> content \<Rightarrow> bool" where
  "content_ok lib (Str s) = markup_ok lib s"
| "content_ok lib (Text s) = True"
| "content_ok lib (Json v) = True"
| "content_ok lib (Summary code reason elapsed) = True"

fun row_ok :: "rich_lib \<Rightarrow> row \<Rightarrow> bool" where
  "row_ok lib (idx, start, end, text) =
     (markup_ok lib idx \<and> markup_ok lib start \<and> markup_ok lib end \<and> markup_ok lib text)"

fun print_ok :: "rich_lib \<Rightarrow> renderable \<Rightarrow> bool" where
  "print_ok lib (Panel title c) = (markup_ok lib title \<and> content_ok lib c)"
| "print_ok lib (Table title rows) = (markup_ok lib title \<and> list_all (row_ok lib) rows)"

definition console_print :: "rich_lib \<Rightarrow> renderable \<Rightarrow> rendering" where
  "console_print lib x = (if print_ok lib x then ([x], None) else ([], Some MarkupError))"

subsection \<open>\<^verbatim>\<open>extract_result\<close>\<close>

fun extract_result :: "json \<Rightarrow> json" where
  "extract_result (JObj d) =
     (if has_key d ''text'' \<or> has_key d ''segments'' then JObj d
      else case dict_get d ''result'' of JObj r \<Rightarrow> JObj r | _ \<Rightarrow> JObj d)"
| "extract_result payload = payload"

subsection \<open>\<^verbatim>\<open>build_segments_table\<close>\<close>

text \<open>
  One pass of the loop body. \<^verbatim>\<open>segment.get\<close> exists on a dictionary only, and
  \<^verbatim>\<open>.strip()\<close> on a string only; anything else raises \<^verbatim>\<open>AttributeError\<close>.
\<close>

definition segment_row :: "(string \<Rightarrow> pyfloat option) \<Rightarrow> nat \<Rightarrow> json \<Rightarrow> py_error + row" where
  "segment_row str2f idx segment =
     (case segment of
        JObj d \<Rightarrow>
          (case format_seconds str2f (dict_get d ''start'') of
             Inl err \<Rightarrow> Inl err
           | Inr start \<Rightarrow>
               (case format_seconds str2f (dict_get d ''end'') of
                  Inl err \<Rightarrow> Inl err
                | Inr end \<Rightarrow>
                    (case (if truthy (dict_get d ''text'') then dict_get d ''text'' else JStr [])
                     of JStr s \<Rightarrow> Inr (str_int (int idx), start, end, strip s)
                      | _ \<Rightarrow> Inl AttributeError)))
      | _ \<Rightarrow> Inl AttributeError)"

fun table_rows :: "(string \<Rightarrow> pyfloat option) \<Rightarrow> nat \<Rightarrow> json list \<Rightarrow> py_error + row list" where
  "table_rows str2f idx [] = Inr []"
| "table_rows str2f idx (segment # rest) =
     (case segment_row str2f idx segment of
        Inl err \<Rightarrow> Inl err
      | Inr r \<Rightarrow>
          (case table_rows str2f (Suc idx) rest of
             Inl err \<Rightarrow> Inl err
           | Inr rs \<Rightarrow> Inr (r # rs)))"

definition build_segments_table ::
  "(string \<Rightarrow> pyfloat option) \<Rightarrow> json list \<Rightarrow> py_error + renderable" where
  "build_segments_table str2f segments =
     (case table_rows str2f 1 segments of
        Inl err \<Rightarrow> Inl err
      | Inr rows \<Rightarrow> Inr (Table ''Segments'' rows))"

subsection \<open>\<^verbatim>\<open>print_result\<close>\<close>

record response =
  status_code :: int
  reason_phrase :: string
  content_type :: "string option"
  body_text :: string
  body_json :: "py_error + json"

text \<open>
  \<open>content_type\<close> is \<^verbatim>\<open>response.headers.get("content-type")\<close>, \<open>body_text\<close> is
  \<^verbatim>\<open>response.text\<close>, and \<open>body_json\<close> is what \<^verbatim>\<open>response.json()\<close> returns or
  raises: \<^verbatim>\<open>json.JSONDecodeError\<close> on text that is not JSON, \<^verbatim>\<open>UnicodeDecodeError\<close>
  on bytes that are no text.
\<close>

text \<open>\<^verbatim>\<open>response.headers.get("content-type", "")\<close>.\<close>

definition content_type_header :: "response \<Rightarrow> string" where
  "content_type_header r = (case content_type r of None \<Rightarrow> [] | Some c \<Rightarrow> c)"

definition summary_panel :: "response \<Rightarrow> pyfloat \<Rightarrow> renderable" where
  "summary_panel r elapsed =
     Panel ''Request Summary'' (Summary (status_code r) (reason_phrase r) elapsed)"

text \<open>The \<^verbatim>\<open>except\<close> clause of the second branch names \<^verbatim>\<open>json.JSONDecodeError\<close> only.\<close>

definition parse_payload :: "response \<Rightarrow> py_error + json" where
  "parse_payload r =
     (if startswith (content_type_header r) ''application/json''
      then body_json r
      else (case body_json r of
              Inl err \<Rightarrow> if err = JSONDecodeError then Inr (JStr (body_text r)) else Inl err
            | Inr payload \<Rightarrow> Inr payload))"

text \<open>The statement \<^verbatim>\<open>if text: console.print(Panel(Text(text.strip()), ...))\<close>.\<close>

definition render_text :: "rich_lib \<Rightarrow> json \<Rightarrow> rendering" where
  "render_text lib text =
     (if truthy text
      then (case text of
              JStr t \<Rightarrow> console_print lib (Panel ''Transcript'' (Text (strip t)))
            | _ \<Rightarrow> ([], Some AttributeError))
      else ([], None))"

text \<open>The statements on \<^verbatim>\<open>segments\<close> and the final \<^verbatim>\<open>Response JSON\<close> panel.\<close>

definition render_segments ::
  "rich_lib \<Rightarrow> (string \<Rightarrow> pyfloat option) \<Rightarrow> json \<Rightarrow> json \<Rightarrow> rendering" where
  "render_segments lib str2f payload segments =
     (case segments of
        JList segs \<Rightarrow>
          (if segs \<noteq> []
           then (case build_segments_table str2f segs of
                   Inl err \<Rightarrow> ([], Some err)
                 | Inr t \<Rightarrow> console_print lib t)
           else console_print lib (Panel ''Response JSON'' (Json payload)))
      | _ \<Rightarrow> console_print lib (Panel ''Response JSON'' (Json payload)))"

definition render_payload :: "rich_lib \<Rightarrow> (string \<Rightarrow> pyfloat option) \<Rightarrow> json \<Rightarrow> rendering" where
  "render_payload lib str2f payload =
     (case payload of
        JStr s \<Rightarrow> console_print lib (Panel ''Transcript'' (Str (strip s)))
      | _ \<Rightarrow>
          (case extract_result payload of
             JObj d \<Rightarrow>
               (case render_text lib (dict_get d ''text'') of
                  (out, Some err) \<Rightarrow> (out, Some err)
                | (out, None) \<Rightarrow>
                    (case render_segments lib str2f payload (dict_get d ''segments'') of
                       (out', res) \<Rightarrow> (out @ out', res)))
           | _ \<Rightarrow> console_print lib (Panel ''Response JSON'' (Json payload))))"

definition print_result ::
  "rich_lib \<Rightarrow> (string \<Rightarrow> pyfloat option) \<Rightarrow> response \<Rightarrow> pyfloat \<Rightarrow> rendering" where
  "print_result lib str2f r elapsed =
     (case console_print lib (summary_panel r elapsed) of
        (shown, Some err) \<Rightarrow> (shown, Some err)
      | (shown, None) \<Rightarrow>
          (case parse_payload r of
             Inl err \<Rightarrow> (shown, Some err)
           | Inr payload \<Rightarrow>
               (case render_payload lib str2f payload of (out, res) \<Rightarrow> (shown @ out, res))))"

section \<open>Preparing the audio and running the request\<close>

subsection \<open>Paths\<close>

text \<open>
  A path is its directory part and its final component. \<^verbatim>\<open>PurePath.suffix\<close> and
  \<^verbatim>\<open>PurePath.stem\<close> cut the final component at its last dot, unless that dot is the
  first or the last character.
\<close>

record path =
  dir :: string
  name :: string

definition nl :: string where
  "nl = [CHR 0x0A]"

definition path_str :: "path \<Rightarrow> string" where
  "path_str p = (if dir p = [] then name p else dir p @ ''/'' @ name p)"

text \<open>\<^verbatim>\<open>name.rfind('.')\<close>, \<open>None\<close> for Python's \<open>-1\<close>.\<close>

definition rfind_dot :: "string \<Rightarrow> nat option" where
  "rfind_dot s =
     (let k = length (takeWhile (\<lambda>c. c \<noteq> CHR ''.'') (rev s))
      in if k = length s then None else Some (length s - 1 - k))"

definition suffix :: "path \<Rightarrow> string" where
  "suffix p =
     (case rfind_dot (name p) of
        None \<Rightarrow> []
      | Some i \<Rightarrow> if 0 < i \<and> i + 1 < length (name p) then drop i (name p) else [])"

definition stem :: "path \<Rightarrow> string" where
  "stem p =
     (case rfind_dot (name p) of
        None \<Rightarrow> name p
      | Some i \<Rightarrow> if 0 < i \<and> i + 1 < length (name p) then take i (name p) else name p)"

subsection \<open>The command line and the world outside\<close>

record args =
  arg_url :: string
  arg_file :: path
  arg_response_format :: string
  arg_temperature :: pyfloat
  arg_temperature_inc :: pyfloat
  arg_language :: "string option"
  arg_prompt :: "string option"
  arg_no_convert :: bool
  arg_timeout :: pyfloat

text \<open>A value of the form data: \<^verbatim>\<open>str(x)\<close> of a float \<open>x\<close>, or a string as it is.\<close>

datatype form_value = StrOfFloat pyfloat | Plain string

record file_part =
  field_name :: string
  file_name :: string
  file_source :: path
  mime_type :: string

record request =
  req_url :: string
  req_data :: "(string \<times> form_value) list"
  req_files :: "file_part list"
  req_timeout :: pyfloat

text \<open>
  What \<^verbatim>\<open>client.post\<close> does: it raises an \<^verbatim>\<open>httpx.RequestError\<close> with a message, it
  raises another exception (\<^verbatim>\<open>httpx.InvalidURL\<close> is none of the former), or it returns.
\<close>

datatype post_outcome = RequestError string | OtherError py_error | Response response

text \<open>
  Everything the run asks of its environment: \<^verbatim>\<open>expanduser\<close> (which raises
  \<^verbatim>\<open>RuntimeError\<close> when the home directory of a \<^verbatim>\<open>~user\<close> path is not known),
  \<^verbatim>\<open>is_file\<close>, \<^verbatim>\<open>shutil.which("ffmpeg")\<close>, whether the temporary directory can
  be made and its name, the return code and standard error of the transcoder for a command line
  (\<open>None\<close> when \<^verbatim>\<open>subprocess.run\<close> itself raises), whether the upload file opens, the
  outcome of the POST and the time it took, \<^verbatim>\<open>float\<close> on strings, and the markup
  functions of \<^verbatim>\<open>rich\<close>.
\<close>

record world =
  expanduser :: "path \<Rightarrow> path"
  expanduser_raises :: "path \<Rightarrow> bool"
  is_file :: "path \<Rightarrow> bool"
  which_ffmpeg :: "string option"
  mkdtemp_raises :: bool
  temp_name :: string
  run_process :: "string list \<Rightarrow> (int \<times> string) option"
  can_open :: "path \<Rightarrow> bool"
  post :: "request \<Rightarrow> post_outcome"
  elapsed :: pyfloat
  float_of_str :: "string \<Rightarrow> pyfloat option"
  rich :: rich_lib

text \<open>
  What a run does, in order: a \<open>Print\<close> is a \<^verbatim>\<open>console.print\<close> that returned,
  \<open>RunProcess\<close> and \<open>HttpPost\<close> are the calls of \<^verbatim>\<open>subprocess.run\<close> and
  \<^verbatim>\<open>client.post\<close>.
\<close>

datatype event =
    Print renderable
  | TempDirCreate string
  | TempDirCleanup string
  | RunProcess "string list"
  | HttpPost request

subsection \<open>\<^verbatim>\<open>prepare_audio\<close>\<close>

definition ffmpeg_cmd :: "string \<Rightarrow> path \<Rightarrow> path \<Rightarrow> string list" where
  "ffmpeg_cmd ffmpeg file_path output_path =
     [ffmpeg, ''-hide_banner'', ''-loglevel'', ''error'', ''-y'', ''-i'', path_str file_path,
      ''-ar'', ''16000'', ''-ac'', ''1'', ''-c:a'', ''pcm_s16le'', path_str output_path]"

definition unsupported_panel :: renderable where
  "unsupported_panel =
     Panel ''Unsupported Format''
       (Str ''Input is not WAV. Enable local conversion or start the server with --convert.'')"

definition missing_panel :: renderable where
  "missing_panel =
     Panel ''Missing Dependency''
       (Str ''ffmpeg not found in PATH. Install ffmpeg or run whisper-server with --convert.'')"

definition conversion_error_panel :: "string \<Rightarrow> renderable" where
  "conversion_error_panel stderr =
     Panel ''Conversion Error''
       (Str (''ffmpeg failed to convert the input.'' @ nl @ nl @ strip stderr))"

definition preparing_panel :: "path \<Rightarrow> renderable" where
  "preparing_panel output_path =
     Panel ''Preparing Audio'' (Str (''Converted to WAV for upload:'' @ nl @ path_str output_path))"

text \<open>
  A \<^verbatim>\<open>console.print\<close> followed by \<^verbatim>\<open>return None, None\<close>: the events, and the
  exception of the print or the pair returned.
\<close>

definition report_failure ::
  "rich_lib \<Rightarrow> renderable \<Rightarrow> event list \<times> (py_error + path option \<times> string option)" where
  "report_failure lib panel =
     (case console_print lib panel of
        (shown, Some err) \<Rightarrow> (map Print shown, Inl err)
      | (shown, None) \<Rightarrow> (map Print shown, Inr (None, None)))"

text \<open>
  The events of the call, and the exception that leaves it or the pair it returns. On a
  non-zero return code the error panel is printed first and the directory released after;
  nothing releases it when \<^verbatim>\<open>subprocess.run\<close> or a print raises. When
  \<^verbatim>\<open>TemporaryDirectory()\<close> itself raises there is no directory.
\<close>

definition prepare_audio ::
  "world \<Rightarrow> path \<Rightarrow> bool \<Rightarrow> event list \<times> (py_error + path option \<times> string option)" where
  "prepare_audio w file_path allow_convert =
     (if lower (suffix file_path) = ''.wav'' then ([], Inr (Some file_path, None))
      else if \<not> allow_convert then report_failure (rich w) unsupported_panel
      else case which_ffmpeg w of
        None \<Rightarrow> report_failure (rich w) missing_panel
      | Some ffmpeg \<Rightarrow>
          if ffmpeg = [] then report_failure (rich w) missing_panel
          else if mkdtemp_raises w then ([], Inl OSError)
          else
            let temp_dir = temp_name w;
                output_path = \<lparr>dir = temp_dir, name = stem file_path @ ''.wav''\<rparr>;
                cmd = ffmpeg_cmd ffmpeg file_path output_path
            in case run_process w cmd of
                 None \<Rightarrow> ([TempDirCreate temp_dir, RunProcess cmd], Inl OSError)
               | Some (returncode, stderr) \<Rightarrow>
                   if returncode \<noteq> 0 then
                     (case console_print (rich w) (conversion_error_panel stderr) of
                        (shown, Some err) \<Rightarrow>
                          ([TempDirCreate temp_dir, RunProcess cmd] @ map Print shown, Inl err)
                      | (shown, None) \<Rightarrow>
                          ([TempDirCreate temp_dir, RunProcess cmd] @ map Print shown
                           @ [TempDirCleanup temp_dir], Inr (None, None)))
                   else
                     (case console_print (rich w) (preparing_panel output_path) of
                        (shown, Some err) \<Rightarrow>
                          ([TempDirCreate temp_dir, RunProcess cmd] @ map Print shown, Inl err)
                      | (shown, None) \<Rightarrow>
                          ([TempDirCreate temp_dir, RunProcess cmd] @ map Print shown,
                           Inr (Some output_path, Some temp_dir))))"

subsection \<open>\<^verbatim>\<open>main\<close>\<close>

text \<open>\<^verbatim>\<open>response.is_error\<close>: a 4xx or 5xx status code.\<close>

definition is_error :: "response \<Rightarrow> bool" where
  "is_error r = (400 \<le> status_code r \<and> status_code r \<le> 599)"

text \<open>Truth value of an optional string argument, as \<^verbatim>\<open>if args.language:\<close> tests it.\<close>

definition opt_field :: "string \<Rightarrow> string option \<Rightarrow> (string \<times> form_value) list" where
  "opt_field k v = (case v of None \<Rightarrow> [] | Some s \<Rightarrow> if s = [] then [] else [(k, Plain s)])"

definition form_data :: "args \<Rightarrow> (string \<times> form_value) list" where
  "form_data a =
     [(''temperature'', StrOfFloat (arg_temperature a)),
      (''temperature_inc'', StrOfFloat (arg_temperature_inc a)),
      (''response_format'', Plain (arg_response_format a))]
     @ opt_field ''language'' (arg_language a) @ opt_field ''prompt'' (arg_prompt a)"

definition build_request :: "args \<Rightarrow> path \<Rightarrow> request" where
  "build_request a upload_path =
     \<lparr>req_url = arg_url a,
      req_data = form_data a,
      req_files =
        [\<lparr>field_name = ''file'', file_name = name upload_path, file_source = upload_path,
          mime_type = (if lower (suffix upload_path) = ''.wav'' then ''audio/wav''
                       else ''application/octet-stream'')\<rparr>],
      req_timeout = arg_timeout a\<rparr>"

definition cleanup :: "string option \<Rightarrow> event list" where
  "cleanup temp_dir = (case temp_dir of None \<Rightarrow> [] | Some d \<Rightarrow> [TempDirCleanup d])"

definition not_found_panel :: "path \<Rightarrow> renderable" where
  "not_found_panel file_path =
     Panel ''Error'' (Str (''[red]File not found:[/red]'' @ nl @ path_str file_path))"

definition asr_panel :: "args \<Rightarrow> path \<Rightarrow> path \<Rightarrow> renderable" where
  "asr_panel a file_path upload_path =
     Panel ''Whisper ASR''
       (Str (''Source: '' @ path_str file_path @ nl @ ''Upload: '' @ path_str upload_path @ nl
             @ ''URL: '' @ arg_url a @ nl @ ''Format: '' @ arg_response_format a))"

definition network_error_panel :: "string \<Rightarrow> renderable" where
  "network_error_panel exc =
     Panel ''Network Error'' (Str (''[red]Request failed:[/red]'' @ nl @ exc))"

definition http_error_panel :: "response \<Rightarrow> renderable" where
  "http_error_panel r =
     Panel (''HTTP '' @ str_int (status_code r) @ '' '' @ reason_phrase r)
       (Str (if strip (body_text r) = [] then ''(empty response body)'' else strip (body_text r)))"

text \<open>
  A last \<^verbatim>\<open>console.print\<close> and the \<^verbatim>\<open>return\<close> of an exit code after it: the events,
  and the exception of the print or the exit code.
\<close>

definition print_and_return :: "rich_lib \<Rightarrow> renderable \<Rightarrow> int \<Rightarrow> event list \<times> (py_error + int)" where
  "print_and_return lib panel code =
     (case console_print lib panel of
        (shown, Some err) \<Rightarrow> (map Print shown, Inl err)
      | (shown, None) \<Rightarrow> (map Print shown, Inr code))"

text \<open>What \<^verbatim>\<open>main\<close> does with the response, after the \<^verbatim>\<open>finally\<close> block has run.\<close>

definition after_post :: "world \<Rightarrow> response \<Rightarrow> event list \<times> (py_error + int)" where
  "after_post w r =
     (if is_error r then print_and_return (rich w) (http_error_panel r) 1
      else (case print_result (rich w) (float_of_str w) r (elapsed w) of
              (out, res) \<Rightarrow>
                (map Print out, case res of None \<Rightarrow> Inr 0 | Some err \<Rightarrow> Inl err)))"

text \<open>
  The run: its events and either the exit code \<^verbatim>\<open>main\<close> returns or the exception that
  leaves it. The \<^verbatim>\<open>Whisper ASR\<close> panel is printed before the \<^verbatim>\<open>try\<close> block. The
  \<^verbatim>\<open>finally\<close> block runs on every way out of the \<^verbatim>\<open>try\<close> block: after the
  \<^verbatim>\<open>except\<close> handler, whether its print returns or raises, after an exception it does
  not handle (the file does not open, the POST raises something else), and after the
  response arrived.
\<close>

definition main :: "world \<Rightarrow> args \<Rightarrow> event list \<times> (py_error + int)" where
  "main w a =
     (if expanduser_raises w (arg_file a) then ([], Inl RuntimeError)
      else
        let file_path = expanduser w (arg_file a)
        in if \<not> is_file w file_path then print_and_return (rich w) (not_found_panel file_path) 2
           else case prepare_audio w file_path (\<not> arg_no_convert a) of
             (prep, Inl err) \<Rightarrow> (prep, Inl err)
           | (prep, Inr (None, temp_dir)) \<Rightarrow> (prep, Inr 2)
           | (prep, Inr (Some upload_path, temp_dir)) \<Rightarrow>
               (case console_print (rich w) (asr_panel a file_path upload_path) of
                  (shown, Some err) \<Rightarrow> (prep @ map Print shown, Inl err)
                | (shown, None) \<Rightarrow>
                    let intro = prep @ map Print shown
                    in if \<not> can_open w upload_path then (intro @ cleanup temp_dir, Inl OSError)
                       else let req = build_request a upload_path
                            in case post w req of
                                 RequestError exc \<Rightarrow>
                                   (case print_and_return (rich w) (network_error_panel exc) 1 of
                                      (evs, res) \<Rightarrow>
                                        (intro @ [HttpPost req] @ evs @ cleanup temp_dir, res))
                               | OtherError err \<Rightarrow>
                                   (intro @ [HttpPost req] @ cleanup temp_dir, Inl err)
                               | Response r \<Rightarrow>
                                   (case after_post w r of
                                      (evs, res) \<Rightarrow>
                                        (intro @ [HttpPost req] @ cleanup temp_dir @ evs, res))))"

section \<open>Vocabulary of the properties\<close>

fun is_str :: "json \<Rightarrow> bool" where
  "is_str (JStr s) = True"
| "is_str _ = False"

fun is_obj :: "json \<Rightarrow> bool" where
  "is_obj (JObj d) = True"
| "is_obj _ = False"

definition nonempty_list :: "json \<Rightarrow> bool" where
  "nonempty_list v = (case v of JList segs \<Rightarrow> segs \<noteq> [] | _ \<Rightarrow> False)"

fun is_table :: "renderable \<Rightarrow> bool" where
  "is_table (Table t rows) = True"
| "is_table _ = False"

fun is_temp :: "event \<Rightarrow> bool" where
  "is_temp (TempDirCreate d) = True"
| "is_temp (TempDirCleanup d) = True"
| "is_temp _ = False"

fun is_post :: "event \<Rightarrow> bool" where
  "is_post (HttpPost q) = True"
| "is_post _ = False"

text \<open>The source file of a run, and whether its extension is \<^verbatim>\<open>.wav\<close> in any case.\<close>

definition source_path :: "world \<Rightarrow> args \<Rightarrow> path" where
  "source_path w a = expanduser w (arg_file a)"

definition is_wav :: "path \<Rightarrow> bool" where
  "is_wav p = (lower (suffix p) = ''.wav'')"

text \<open>The file the transcoder writes.\<close>

definition transcoded :: "world \<Rightarrow> path \<Rightarrow> path" where
  "transcoded w file_path = \<lparr>dir = temp_name w, name = stem file_path @ ''.wav''\<rparr>"

subsection \<open>Concrete inputs\<close>

text \<open>
  The doubles \<open>65.4321\<close> and \<open>3725.0\<close>, and the payload
  \<^verbatim>\<open>{"result": {"text": "hi", "segments": [{"start": 1.0, "end": 2.5, "text": " a "}]}}\<close>.
\<close>

definition f_65_4321 :: pyfloat where
  "f_65_4321 = Finite 4604374705907329 (- 46)"

definition f_3725 :: pyfloat where
  "f_3725 = Finite 3725 0"

definition nested_payload :: json where
  "nested_payload =
     JObj [(''result'',
       JObj [(''text'', JStr ''hi''),
             (''segments'',
               JList [JObj [(''start'', JFloat (Finite 1 0)), (''end'', JFloat (Finite 5 (- 1))),
                            (''text'', JStr '' a '')]])])]"

definition ok_response :: "string \<Rightarrow> string \<Rightarrow> py_error + json \<Rightarrow> response" where
  "ok_response ctype body parsed =
     \<lparr>status_code = 200, reason_phrase = ''OK'', content_type = Some ctype,
      body_text = body, body_json = parsed\<rparr>"

text \<open>
  The replies \<^verbatim>\<open>{"text": 5}\<close>, \<^verbatim>\<open>"plain text"\<close> and \<^verbatim>\<open>"[/x] y"\<close>, all declared
  as JSON.
\<close>

definition text_5_response :: response where
  "text_5_response =
     ok_response ''application/json'' (''{'' @ [CHR 0x22] @ ''text'' @ [CHR 0x22] @ '': 5}'')
       (Inr (JObj [(''text'', JInt 5)]))"

definition plain_text_response :: response where
  "plain_text_response =
     ok_response ''application/json'' ([CHR 0x22] @ ''plain text'' @ [CHR 0x22])
       (Inr (JStr ''plain text''))"

definition closing_tag_response :: response where
  "closing_tag_response =
     ok_response ''application/json'' ([CHR 0x22] @ ''[/x] y'' @ [CHR 0x22])
       (Inr (JStr ''[/x] y''))"

definition no_float :: "string \<Rightarrow> pyfloat option" where
  "no_float s = None"

text \<open>A stand-in for the two library functions, for inputs whose markup has no tag to normalize.\<close>

definition plain_rich :: rich_lib where
  "plain_rich = \<lparr>normalize = (\<lambda>s. s), literal_ok = (\<lambda>s. True)\<rparr>"

text \<open>
  A world where everything works: the transcoder is installed and succeeds, the file
  opens, and the server answers \<^verbatim>\<open>{"text": "hello"}\<close>.
\<close>

definition good_world :: world where
  "good_world =
     \<lparr>expanduser = (\<lambda>p. p), expanduser_raises = (\<lambda>p. False), is_file = (\<lambda>p. True),
      which_ffmpeg = Some ''/usr/bin/ffmpeg'', mkdtemp_raises = False,
      temp_name = ''/tmp/tmpq'',
      run_process = (\<lambda>cmd. Some (0, [])), can_open = (\<lambda>p. True),
      post = (\<lambda>q. Response (ok_response ''application/json'' []
                (Inr (JObj [(''text'', JStr ''hello'')])))),
      elapsed = Finite 1 0, float_of_str = no_float, rich = plain_rich\<rparr>"

definition m4a_args :: args where
  "m4a_args =
     \<lparr>arg_url = ''http://127.0.0.1:8080/inference'',
      arg_file = \<lparr>dir = ''workspace'', name = ''talk.m4a''\<rparr>,
      arg_response_format = ''json'', arg_temperature = Finite 0 0,
      arg_temperature_inc = Finite 3602879701896397 (- 54),
      arg_language = None, arg_prompt = Some ''hi'', arg_no_convert = False,
      arg_timeout = Finite 300 0\<rparr>"

text \<open>
  Inputs with a closing tag in them: the file \<^verbatim>\<open>workspace/[/x].m4a\<close>, the endpoint
  \<^verbatim>\<open>http://h/[/x]\<close>, and a transcoder that fails with \<^verbatim>\<open>[/x] bad\<close> on its standard
  error.
\<close>

definition bracket_file_args :: args where
  "bracket_file_args = m4a_args\<lparr>arg_file := \<lparr>dir = ''workspace/['', name = ''x].m4a''\<rparr>\<rparr>"


definition failing_transcoder :: "string list \<Rightarrow> (int \<times> string) option" where
  "failing_transcoder cmd = Some (1, ''[/x] bad'')"

section \<open>Evaluation on concrete inputs\<close>

lemma replicate_numeral_ev: "replicate (numeral k) x = x # replicate (pred_numeral k) x"
  by (simp add: numeral_eq_Suc)

lemmas time_ev = format_seconds_def total_ms_of_def format_ms_def fmt_d_def zfill_def
  digits.simps digit_char_def fl_round_def round_half_even_shift_def bits.simps
  replicate_numeral_ev

lemma markup_ok_plain: "CHR ''['' \<notin> set s \<Longrightarrow> markup_ok lib s"
  by (simp add: markup_ok_def)

lemma print_ok_text: "print_ok lib (Panel ''Transcript'' (Text t))"
  by (simp add: markup_ok_def)

lemma print_ok_json: "print_ok lib (Panel ''Response JSON'' (Json v))"
  by (simp add: markup_ok_def)

lemma print_ok_summary: "print_ok lib (summary_panel r el)"
  by (simp add: summary_panel_def markup_ok_def)

lemma console_print_text:
  "console_print lib (Panel ''Transcript'' (Text t)) = ([Panel ''Transcript'' (Text t)], None)"
  by (simp add: console_print_def markup_ok_def)

lemma console_print_json:
  "console_print lib (Panel ''Response JSON'' (Json v)) = ([Panel ''Response JSON'' (Json v)], None)"
  by (simp add: console_print_def markup_ok_def)

lemma console_print_summary:
  "console_print lib (summary_panel r el) = ([summary_panel r el], None)"
  by (simp add: console_print_def summary_panel_def markup_ok_def)

lemma console_print_cases:
  "console_print lib x = ([x], None) \<or> console_print lib x = ([], Some MarkupError)"
  by (simp add: console_print_def)

lemma print_result_eq:
  "print_result lib f r el =
     (case parse_payload r of
        Inl err \<Rightarrow> ([summary_panel r el], Some err)
      | Inr payload \<Rightarrow>
          (case render_payload lib f payload of (out, res) \<Rightarrow> (summary_panel r el # out, res)))"
  by (simp add: print_result_def console_print_summary split: sum.splits prod.splits)

lemma console_print_str:
  "console_print lib (Panel ''Transcript'' (Str s)) =
     (if markup_ok lib s then ([Panel ''Transcript'' (Str s)], None) else ([], Some MarkupError))"
  by (simp add: console_print_def markup_ok_def)

lemmas markup_ev = markup_ok_def tag_start_def tag_name_def tag_parameters_def handler_ok_def
  strip_def is_space_def

lemmas render_ev = print_result_def parse_payload_def render_payload_def render_text_def
  render_segments_def build_segments_table_def segment_row_def has_key_def dict_get_def
  startswith_def strip_def is_space_def str_int_def summary_panel_def content_type_header_def
  ok_response_def nonempty_list_def console_print_def markup_ok_def

lemma format_seconds_one: "format_seconds f (JFloat (Finite 1 0)) = Inr ''00:01.000''"
  by (simp add: time_ev)

lemma format_seconds_two_and_half: "format_seconds f (JFloat (Finite 5 (- 1))) = Inr ''00:02.500''"
  by (simp add: time_ev)

lemma render_nested_payload:
  "render_payload lib f nested_payload =
     ([Panel ''Transcript'' (Text ''hi''),
       Table ''Segments'' [(''1'', ''00:01.000'', ''00:02.500'', ''a'')]], None)"
  by (simp add: nested_payload_def render_payload_def render_text_def render_segments_def
        build_segments_table_def segment_row_def has_key_def dict_get_def strip_def
        is_space_def str_int_def digits.simps digit_char_def console_print_def markup_ok_def
        format_seconds_one format_seconds_two_and_half)

section \<open>The time formatter\<close>

lemma format_seconds_None: "format_seconds f JNull = Inr ''-''"
  by (simp add: format_seconds_def)

lemma format_seconds_not_a_number:
  "to_float f v = Inl TypeError \<or> to_float f v = Inl ValueError \<Longrightarrow>
   format_seconds f v = Inr ''-''"
  by (auto simp: format_seconds_def total_ms_of_def)

lemma format_seconds_NaN: "format_seconds f (JFloat NaN) = Inr ''-''"
  by (simp add: format_seconds_def total_ms_of_def)

lemma format_seconds_total_ms:
  "v \<noteq> JNull \<Longrightarrow> total_ms_of f v = Inr ms \<Longrightarrow> format_seconds f v = Inr (format_ms ms)"
  by (simp add: format_seconds_def)

lemma format_seconds_65_4321: "format_seconds f (JFloat f_65_4321) = Inr ''01:05.432''"
  by (simp add: f_65_4321_def time_ev)

lemma format_seconds_3725: "format_seconds f (JFloat f_3725) = Inr ''01:02:05.000''"
  by (simp add: f_3725_def time_ev)

lemma format_seconds_negative: "format_seconds f (JInt (- 90)) = Inr ''-1:58:30.000''"
  by (simp add: time_ev)

lemma to_float_errors:
  "to_float f v = Inl err \<Longrightarrow> err = TypeError \<or> err = ValueError \<or> err = OverflowError"
  by (cases v) (auto split: option.splits pyfloat.splits)

lemma py_round_errors: "py_round x = Inl err \<Longrightarrow> err = ValueError \<or> err = OverflowError"
  by (cases x) auto

lemma format_seconds_raises_only_overflow:
  "(\<exists>s. format_seconds f v = Inr s) \<or> format_seconds f v = Inl OverflowError"
proof (cases "total_ms_of f v")
  case (Inl err)
  then have "err = TypeError \<or> err = ValueError \<or> err = OverflowError"
    using to_float_errors [of f v err] py_round_errors
    by (auto simp: total_ms_of_def split: sum.splits)
  with Inl show ?thesis
    by (auto simp: format_seconds_def)
next
  case (Inr ms)
  then show ?thesis
    by (simp add: format_seconds_def)
qed

lemma digits_one: "n < 10 \<Longrightarrow> digits n = [digit_char n]"
  by (simp add: digits.simps)

lemma digits_two: "10 \<le> n \<Longrightarrow> n < 100 \<Longrightarrow> digits n = [digit_char (n div 10), digit_char (n mod 10)]"
  by (subst digits.simps) (simp add: digits_one)

lemma digits_three:
  "100 \<le> n \<Longrightarrow> n < 1000 \<Longrightarrow>
   digits n = [digit_char (n div 100), digit_char (n div 10 mod 10), digit_char (n mod 10)]"
  by (subst digits.simps) (simp add: digits_two div_mult2_eq [symmetric])

lemma fmt_d_two:
  assumes "0 \<le> n" and "n < 100"
  shows "fmt_d 2 n = [digit_char (nat n div 10), digit_char (nat n mod 10)]"
proof (cases "nat n < 10")
  case True
  then show ?thesis
    using assms by (simp add: fmt_d_def zfill_def digits_one digit_char_def)
next
  case False
  then show ?thesis
    using assms by (simp add: fmt_d_def zfill_def digits_two)
qed

lemma fmt_d_three:
  assumes "0 \<le> n" and "n < 1000"
  shows "fmt_d 3 n =
     [digit_char (nat n div 100), digit_char (nat n div 10 mod 10), digit_char (nat n mod 10)]"
proof -
  consider "nat n < 10" | "10 \<le> nat n" "nat n < 100" | "100 \<le> nat n"
    by linarith
  then show ?thesis
  proof cases
    case 1
    then show ?thesis
      using assms by (simp add: fmt_d_def zfill_def digits_one digit_char_def replicate_numeral_ev)
  next
    case 2
    then have "nat n div 100 = 0" by simp
    with 2 show ?thesis
      using assms by (simp add: fmt_d_def zfill_def digits_two digit_char_def)
  next
    case 3
    then show ?thesis
      using assms by (simp add: fmt_d_def zfill_def digits_three)
  qed
qed

text \<open>
  Without hours the result is \<open>MM:SS.mmm\<close>, nine characters; with one or two digits of
  hours it is \<open>HH:MM:SS.mmm\<close>, twelve characters.
\<close>

lemma format_ms_minutes:
  assumes "0 \<le> ms" and "ms < 3600000"
  shows "format_ms ms =
     fmt_d 2 (ms div 60000) @ '':'' @ fmt_d 2 (ms mod 60000 div 1000) @ ''.''
       @ fmt_d 3 (ms mod 1000)
   \<and> length (format_ms ms) = 9"
proof -
  have h: "ms div 3600000 = 0" "ms mod 3600000 = ms"
    using assms by simp_all
  have m: "0 \<le> ms div 60000" "ms div 60000 < 100"
    using assms by simp_all
  have s: "0 \<le> ms mod 60000 div 1000" "ms mod 60000 div 1000 < 100"
    by simp_all
  have l: "0 \<le> ms mod 1000" "ms mod 1000 < 1000"
    by simp_all
  have r: "ms mod 60000 mod 1000 = ms mod 1000"
    by (simp add: mod_mod_cancel)
  show ?thesis
    unfolding format_ms_def
    by (simp add: Let_def h r fmt_d_two [OF m] fmt_d_two [OF s] fmt_d_three [OF l])
qed

lemma format_ms_hours:
  assumes "3600000 \<le> ms" and "ms < 360000000"
  shows "format_ms ms =
     fmt_d 2 (ms div 3600000) @ '':'' @ fmt_d 2 (ms mod 3600000 div 60000) @ '':''
       @ fmt_d 2 (ms mod 60000 div 1000) @ ''.'' @ fmt_d 3 (ms mod 1000)
   \<and> length (format_ms ms) = 12"
proof -
  have h: "0 \<le> ms div 3600000" "ms div 3600000 < 100" "ms div 3600000 \<noteq> 0"
    using assms by simp_all
  have m: "0 \<le> ms mod 3600000 div 60000" "ms mod 3600000 div 60000 < 100"
    by simp_all
  have s: "0 \<le> ms mod 60000 div 1000" "ms mod 60000 div 1000 < 100"
    by simp_all
  have l: "0 \<le> ms mod 1000" "ms mod 1000 < 1000"
    by simp_all
  have r: "ms mod 3600000 mod 60000 = ms mod 60000" "ms mod 60000 mod 1000 = ms mod 1000"
    by (simp_all add: mod_mod_cancel)
  show ?thesis
    unfolding format_ms_def
    by (simp add: Let_def h(3) r fmt_d_two [OF h(1,2)] fmt_d_two [OF m] fmt_d_two [OF s]
          fmt_d_three [OF l])
qed

text \<open>
  C2. The time formatter answers \<open>-\<close> for a NaN, whose rounding raises the
  \<^verbatim>\<open>ValueError\<close> that the \<^verbatim>\<open>except\<close> clause names, and lets the
  \<^verbatim>\<open>OverflowError\<close> of an infinity through: on \<^verbatim>\<open>float("inf")\<close>, which the JSON
  number \<^verbatim>\<open>1e999\<close> parses to, it returns no string at all.
\<close>

theorem format_seconds_infinity_raises:
  "format_seconds f (JFloat PosInf) = Inl OverflowError
   \<and> format_seconds f (JFloat NaN) = Inr ''-''"
  by (simp add: format_seconds_def total_ms_of_def)

section \<open>The response renderer\<close>

lemma extract_result_obj: "extract_result payload = JObj d \<Longrightarrow> \<exists>pd. payload = JObj pd"
  by (cases payload) simp_all

lemma render_payload_JObj:
  "extract_result (JObj pd) = JObj d \<Longrightarrow>
   render_payload lib f (JObj pd) =
     (case render_text lib (dict_get d ''text'') of
        (out, Some err) \<Rightarrow> (out, Some err)
      | (out, None) \<Rightarrow>
          (case render_segments lib f (JObj pd) (dict_get d ''segments'') of
             (out', res) \<Rightarrow> (out @ out', res)))"
  by (simp add: render_payload_def del: extract_result.simps)

lemma render_payload_obj:
  assumes "extract_result payload = JObj d" and "render_payload lib f payload = (out, res)"
  shows "\<exists>o1 r1 o2 r2. render_text lib (dict_get d ''text'') = (o1, r1)
           \<and> (r1 \<noteq> None \<longrightarrow> out = o1 \<and> res = r1)
           \<and> (r1 = None \<longrightarrow> render_segments lib f payload (dict_get d ''segments'') = (o2, r2)
                 \<and> out = o1 @ o2 \<and> res = r2)"
proof -
  from extract_result_obj [OF assms(1)] obtain pd where p: "payload = JObj pd" ..
  obtain o1 r1 where rt: "render_text lib (dict_get d ''text'') = (o1, r1)"
    by fastforce
  obtain o2 r2 where rs: "render_segments lib f payload (dict_get d ''segments'') = (o2, r2)"
    by fastforce
  have eq: "render_payload lib f payload =
      (case r1 of None \<Rightarrow> (o1 @ o2, r2) | Some err \<Rightarrow> (o1, Some err))"
    using render_payload_JObj [of pd d lib f] assms(1) rt rs unfolding p
    by (cases r1) simp_all
  show ?thesis
  proof (cases r1)
    case None
    with eq assms(2) have "out = o1 @ o2 \<and> res = r2" by simp
    with None rt rs show ?thesis by blast
  next
    case (Some err)
    with eq assms(2) have "out = o1 \<and> res = r1" by simp
    with Some rt show ?thesis by blast
  qed
qed

lemma render_text_out:
  "render_text lib v = (out, res) \<Longrightarrow> \<forall>x \<in> set out. \<exists>t. x = Panel ''Transcript'' (Text t)"
  by (auto simp: render_text_def console_print_def split: if_splits json.splits)

lemma render_text_not_str:
  "truthy v \<Longrightarrow> \<not> is_str v \<Longrightarrow> render_text lib v = ([], Some AttributeError)"
  by (cases v) (simp_all add: render_text_def)

lemma render_text_absent: "render_text lib JNull = ([], None)"
  by (simp add: render_text_def)

subsection \<open>Parsing the body\<close>

text \<open>
  C1, at a response that declares JSON and does not parse: the summary is printed and
  \<^verbatim>\<open>json.JSONDecodeError\<close> leaves the renderer; the body is not shown as text.
\<close>

theorem declared_json_parse_failure_raises:
  "print_result plain_rich no_float
     (ok_response ''application/json'' ''<html>'' (Inl JSONDecodeError)) (Finite 1 0)
     = ([Panel ''Request Summary'' (Summary 200 ''OK'' (Finite 1 0))], Some JSONDecodeError)"
  by (simp add: render_ev)

text \<open>
  C1, as the code has it. Whatever the declared content type, a body that parses is
  rendered from the parsed value. When parsing raises \<^verbatim>\<open>json.JSONDecodeError\<close> and the
  declared content type does not start with \<^verbatim>\<open>application/json\<close>, the payload is the
  body text: the decode error is not the error of the rendering, and the stripped text is
  shown in a transcript panel, after the summary and with no error, whenever it prints as
  console markup. When the declared content type starts with \<^verbatim>\<open>application/json\<close>, the
  decode error leaves the renderer after the summary.
\<close>

theorem parse_fallback_by_content_type:
  "(body_json r = Inr payload \<longrightarrow> parse_payload r = Inr payload)
   \<and> (body_json r = Inl JSONDecodeError
        \<and> \<not> startswith (content_type_header r) ''application/json'' \<longrightarrow>
        parse_payload r = Inr (JStr (body_text r))
        \<and> snd (print_result lib f r el) \<noteq> Some JSONDecodeError
        \<and> (markup_ok lib (strip (body_text r)) \<longrightarrow>
             print_result lib f r el
               = ([summary_panel r el, Panel ''Transcript'' (Str (strip (body_text r)))], None)))
   \<and> (body_json r = Inl JSONDecodeError
        \<and> startswith (content_type_header r) ''application/json'' \<longrightarrow>
        print_result lib f r el = ([summary_panel r el], Some JSONDecodeError))"
  by (simp add: print_result_eq parse_payload_def render_payload_def console_print_str)

theorem parse_fallback_by_content_type_witness:
  "body_json (ok_response ''text/plain'' '' so it goes '' (Inl JSONDecodeError))
     = Inl JSONDecodeError
   \<and> startswith (content_type_header (ok_response ''text/plain'' '' so it goes ''
          (Inl JSONDecodeError))) ''application/json'' = False
   \<and> markup_ok plain_rich (strip '' so it goes '')
   \<and> print_result plain_rich no_float
         (ok_response ''text/plain'' '' so it goes '' (Inl JSONDecodeError)) (Finite 1 0)
       = ([Panel ''Request Summary'' (Summary 200 ''OK'' (Finite 1 0)),
           Panel ''Transcript'' (Str ''so it goes'')], None)
   \<and> parse_payload (ok_response ''text/srt'' ''[1]'' (Inr (JList [JInt 1])))
       = Inr (JList [JInt 1])"
  using parse_fallback_by_content_type
          [of "ok_response ''text/plain'' '' so it goes '' (Inl JSONDecodeError)" JNull
              plain_rich no_float "Finite 1 0"]
        parse_fallback_by_content_type
          [of "ok_response ''text/srt'' ''[1]'' (Inr (JList [JInt 1]))" "JList [JInt 1]"]
  by (simp add: ok_response_def content_type_header_def startswith_def summary_panel_def
        strip_def is_space_def markup_ok_def)

subsection \<open>A string payload\<close>

lemma string_payload_rendering:
  "body_json r = Inr (JStr s) \<Longrightarrow>
   print_result lib f r el =
     (if markup_ok lib (strip s)
      then ([summary_panel r el, Panel ''Transcript'' (Str (strip s))], None)
      else ([summary_panel r el], Some MarkupError))"
  by (simp add: print_result_eq parse_payload_def render_payload_def console_print_str)

lemma plain_text_rendering:
  "print_result lib f plain_text_response el
     = ([summary_panel plain_text_response el, Panel ''Transcript'' (Str ''plain text'')], None)"
  by (simp add: string_payload_rendering [of _ "''plain text''"] plain_text_response_def
        ok_response_def markup_ok_def strip_def is_space_def)

lemma closing_tag_not_markup: "\<not> markup_ok lib ''[/x] y''"
  by (simp add: markup_ev)

text \<open>
  C8. The parsed string \<^verbatim>\<open>[/x] y\<close> is handed to the panel as a \<^verbatim>\<open>str\<close>, which is
  read as console markup: its closing tag closes nothing, \<^verbatim>\<open>MarkupError\<close> leaves the
  renderer after the summary, and no transcript is shown. The same text under the \<open>text\<close>
  key of a result object goes through \<^verbatim>\<open>Text\<close> and is shown as it is.
\<close>

theorem string_payload_with_closing_tag_raises:
  "print_result lib f closing_tag_response el
     = ([summary_panel closing_tag_response el], Some MarkupError)
   \<and> render_payload lib f (JObj [(''text'', JStr ''[/x] y'')])
     = ([Panel ''Transcript'' (Text ''[/x] y''),
         Panel ''Response JSON'' (Json (JObj [(''text'', JStr ''[/x] y'')]))], None)"
proof -
  have "print_result lib f closing_tag_response el
     = ([summary_panel closing_tag_response el], Some MarkupError)"
    using string_payload_rendering [of closing_tag_response "''[/x] y''" lib f el]
          closing_tag_not_markup [of lib]
    by (simp add: closing_tag_response_def ok_response_def strip_def is_space_def)
  moreover have "render_payload lib f (JObj [(''text'', JStr ''[/x] y'')])
     = ([Panel ''Transcript'' (Text ''[/x] y''),
         Panel ''Response JSON'' (Json (JObj [(''text'', JStr ''[/x] y'')]))], None)"
    by (simp add: render_payload_def render_text_def render_segments_def has_key_def
          dict_get_def strip_def is_space_def console_print_text console_print_json)
  ultimately show ?thesis by simp
qed

subsection \<open>The result object\<close>

text \<open>
  C4. For a payload that is not a string (a string never reaches the extraction): an
  object with a \<open>text\<close> or a \<open>segments\<close> key is the result itself; otherwise an object
  whose \<open>result\<close> is an object has that object as the result; otherwise, and for a payload
  that is no object, the full payload is shown as formatted JSON and nothing else.
  \<^verbatim>\<open>{"foo": "bar"}\<close> is shown as JSON; the nested payload gives the transcript \<open>hi\<close>
  and a one-row table.
\<close>

theorem result_priority_order:
  "(has_key d ''text'' \<or> has_key d ''segments'' \<longrightarrow> extract_result (JObj d) = JObj d)
   \<and> (\<not> has_key d ''text'' \<and> \<not> has_key d ''segments'' \<and> dict_get d ''result'' = JObj n \<longrightarrow>
        extract_result (JObj d) = JObj n)
   \<and> (\<not> has_key d ''text'' \<and> \<not> has_key d ''segments'' \<and> \<not> is_obj (dict_get d ''result'') \<longrightarrow>
        render_payload lib f (JObj d) = ([Panel ''Response JSON'' (Json (JObj d))], None))
   \<and> (\<not> is_obj p \<and> \<not> is_str p \<longrightarrow>
        render_payload lib f p = ([Panel ''Response JSON'' (Json p)], None))
   \<and> render_payload lib f (JObj [(''foo'', JStr ''bar'')])
        = ([Panel ''Response JSON'' (Json (JObj [(''foo'', JStr ''bar'')]))], None)
   \<and> extract_result nested_payload
        = JObj [(''text'', JStr ''hi''),
                (''segments'',
                  JList [JObj [(''start'', JFloat (Finite 1 0)),
                               (''end'', JFloat (Finite 5 (- 1))), (''text'', JStr '' a '')]])]
   \<and> render_payload lib f nested_payload
        = ([Panel ''Transcript'' (Text ''hi''),
            Table ''Segments'' [(''1'', ''00:01.000'', ''00:02.500'', ''a'')]], None)"
proof -
  have third: "render_payload lib f (JObj d) = ([Panel ''Response JSON'' (Json (JObj d))], None)"
    if "\<not> has_key d ''text''" "\<not> has_key d ''segments''" "\<not> is_obj (dict_get d ''result'')"
  proof -
    have "extract_result (JObj d) = JObj d"
      using that by (cases "dict_get d ''result''") simp_all
    moreover have "dict_get d ''text'' = JNull" "dict_get d ''segments'' = JNull"
      using that by (simp_all add: has_key_def dict_get_def split: option.splits)
    ultimately show ?thesis
      by (simp add: render_payload_JObj render_text_absent render_segments_def
            console_print_json)
  qed
  have fourth: "render_payload lib f p = ([Panel ''Response JSON'' (Json p)], None)"
    if "\<not> is_obj p" "\<not> is_str p"
    using that by (cases p) (simp_all add: render_payload_def console_print_json)
  have foo: "render_payload lib f (JObj [(''foo'', JStr ''bar'')])
        = ([Panel ''Response JSON'' (Json (JObj [(''foo'', JStr ''bar'')]))], None)"
    by (simp add: render_ev)
  have nested: "extract_result nested_payload
        = JObj [(''text'', JStr ''hi''),
                (''segments'',
                  JList [JObj [(''start'', JFloat (Finite 1 0)),
                               (''end'', JFloat (Finite 5 (- 1))), (''text'', JStr '' a '')]])]"
    by (simp add: nested_payload_def has_key_def dict_get_def)
  show ?thesis
    using third fourth foo nested render_nested_payload [of lib f] by simp
qed

theorem result_priority_order_witness:
  "is_obj (dict_get [(''foo'', JStr ''bar'')] ''result'') = False
   \<and> render_payload plain_rich no_float (JObj [(''foo'', JStr ''bar'')])
        = ([Panel ''Response JSON'' (Json (JObj [(''foo'', JStr ''bar'')]))], None)
   \<and> has_key [(''result'', JObj [(''text'', JStr ''hi'')])] ''text'' = False
   \<and> extract_result (JObj [(''result'', JObj [(''text'', JStr ''hi'')])])
        = JObj [(''text'', JStr ''hi'')]
   \<and> extract_result (JObj [(''segments'', JNull), (''result'', JObj [])])
        = JObj [(''segments'', JNull), (''result'', JObj [])]
   \<and> render_payload plain_rich no_float (JList []) = ([Panel ''Response JSON'' (Json (JList []))], None)"
  using result_priority_order [of "[(''foo'', JStr ''bar'')]" "[]" plain_rich no_float "JList []"]
        result_priority_order
          [of "[(''result'', JObj [(''text'', JStr ''hi'')])]" "[(''text'', JStr ''hi'')]"]
        result_priority_order [of "[(''segments'', JNull), (''result'', JObj [])]"]
  by (simp add: has_key_def dict_get_def)

text \<open>
  C9. The extraction looks at the keys, not at the values: an object that has a
  \<open>text\<close> or a \<open>segments\<close> key is the result, whatever the values and whatever stands
  under \<open>result\<close>. The payload \<^verbatim>\<open>{"text": "", "result": {"text": "hi"}}\<close> is shown as
  formatted JSON, with no transcript.
\<close>

theorem extraction_tests_key_presence:
  "(has_key d ''text'' \<or> has_key d ''segments'' \<longrightarrow> extract_result (JObj d) = JObj d)
   \<and> render_payload lib f (JObj [(''text'', JStr []), (''result'', JObj [(''text'', JStr ''hi'')])])
       = ([Panel ''Response JSON''
             (Json (JObj [(''text'', JStr []), (''result'', JObj [(''text'', JStr ''hi'')])]))],
          None)"
  by (simp add: render_ev)

theorem extraction_tests_key_presence_witness:
  "has_key [(''text'', JNull), (''result'', JObj [(''text'', JStr ''hi'')])] ''text''
   \<and> extract_result (JObj [(''text'', JNull), (''result'', JObj [(''text'', JStr ''hi'')])])
       = JObj [(''text'', JNull), (''result'', JObj [(''text'', JStr ''hi'')])]
   \<and> has_key [(''segments'', JList []), (''result'', JObj [(''text'', JStr ''hi'')])] ''segments''
   \<and> extract_result (JObj [(''segments'', JList []), (''result'', JObj [(''text'', JStr ''hi'')])])
       = JObj [(''segments'', JList []), (''result'', JObj [(''text'', JStr ''hi'')])]"
  using extraction_tests_key_presence
          [of "[(''text'', JNull), (''result'', JObj [(''text'', JStr ''hi'')])]"]
        extraction_tests_key_presence
          [of "[(''segments'', JList []), (''result'', JObj [(''text'', JStr ''hi'')])]"]
  by (simp add: has_key_def)

subsection \<open>A text that is not a string\<close>

text \<open>
  C10. When the result object has a truthy \<open>text\<close> that is not a string, the renderer
  raises \<^verbatim>\<open>AttributeError\<close> right after the request summary: no transcript, no table
  and no JSON panel is printed.
\<close>

theorem truthy_non_string_text_raises:
  assumes "parse_payload r = Inr payload"
      and "extract_result payload = JObj d"
      and "truthy (dict_get d ''text'')"
      and "\<not> is_str (dict_get d ''text'')"
  shows "print_result lib f r el = ([summary_panel r el], Some AttributeError)"
proof -
  from extract_result_obj [OF assms(2)] obtain pd where p: "payload = JObj pd" ..
  have "render_payload lib f payload = ([], Some AttributeError)"
    using render_payload_JObj [of pd d lib f] assms(2) render_text_not_str [OF assms(3,4)]
    unfolding p by simp
  then show ?thesis
    using assms(1) by (simp add: print_result_eq)
qed

theorem truthy_non_string_text_raises_witness:
  "parse_payload text_5_response = Inr (JObj [(''text'', JInt 5)])
   \<and> extract_result (JObj [(''text'', JInt 5)]) = JObj [(''text'', JInt 5)]
   \<and> truthy (dict_get [(''text'', JInt 5)] ''text'')
   \<and> is_str (dict_get [(''text'', JInt 5)] ''text'') = False
   \<and> print_result plain_rich no_float text_5_response (Finite 1 0)
       = ([Panel ''Request Summary'' (Summary 200 ''OK'' (Finite 1 0))], Some AttributeError)"
proof -
  have h1: "parse_payload text_5_response = Inr (JObj [(''text'', JInt 5)])"
    by (simp add: text_5_response_def render_ev)
  have h2: "extract_result (JObj [(''text'', JInt 5)]) = JObj [(''text'', JInt 5)]"
    by (simp add: has_key_def)
  have h3: "truthy (dict_get [(''text'', JInt 5)] ''text'')"
    by (simp add: dict_get_def)
  have h4: "\<not> is_str (dict_get [(''text'', JInt 5)] ''text'')"
    by (simp add: dict_get_def)
  show ?thesis
    using truthy_non_string_text_raises [OF h1 h2 h3 h4, of plain_rich no_float "Finite 1 0"]
          h1 h2 h3 h4
    by (simp add: summary_panel_def text_5_response_def ok_response_def)
qed

subsection \<open>The segment table\<close>

lemma table_rows_length: "table_rows f idx segs = Inr rows \<Longrightarrow> length rows = length segs"
  by (induction segs arbitrary: idx rows) (auto split: sum.splits)

lemma table_rows_nth:
  "table_rows f idx segs = Inr rows \<Longrightarrow> i < length segs \<Longrightarrow>
   segment_row f (idx + i) (segs ! i) = Inr (rows ! i)"
proof (induction segs arbitrary: idx rows i)
  case Nil
  then show ?case by simp
next
  case (Cons s segs)
  from Cons.prems(1) obtain r rs where r: "segment_row f idx s = Inr r"
    and rs: "table_rows f (Suc idx) segs = Inr rs" and rows: "rows = r # rs"
    by (auto split: sum.splits)
  show ?case
  proof (cases i)
    case 0
    then show ?thesis using r rows by simp
  next
    case (Suc j)
    then have "j < length segs" using Cons.prems(2) by simp
    from Cons.IH [OF rs this] show ?thesis using Suc rows by simp
  qed
qed

lemma segment_row_Inr:
  "segment_row f idx seg = Inr r \<Longrightarrow>
   \<exists>sd start end t. seg = JObj sd \<and> r = (str_int (int idx), start, end, t)
     \<and> format_seconds f (dict_get sd ''start'') = Inr start
     \<and> format_seconds f (dict_get sd ''end'') = Inr end
     \<and> ((\<exists>s. dict_get sd ''text'' = JStr s \<and> t = strip s)
          \<or> (\<not> truthy (dict_get sd ''text'') \<and> t = []))"
  unfolding segment_row_def
  by (cases seg; simp split: sum.splits if_splits json.splits) (auto simp: strip_def)

lemma render_segments_nonempty:
  assumes "render_segments lib f payload v = (o2, None)" and "v = JList segs" and "segs \<noteq> []"
  shows "\<exists>rows. o2 = [Table ''Segments'' rows] \<and> table_rows f 1 segs = Inr rows"
  using assms
  by (auto simp: render_segments_def build_segments_table_def console_print_def
        split: sum.splits if_splits)

lemma render_segments_other:
  assumes "render_segments lib f payload v = (o2, res)" and "\<not> nonempty_list v"
  shows "o2 = [Panel ''Response JSON'' (Json payload)] \<and> res = None"
  using assms
  by (cases v) (auto simp: render_segments_def nonempty_list_def console_print_json
        split: if_splits)

text \<open>
  C3, at the result \<^verbatim>\<open>{"segments": [1]}\<close>: its segments field is a non-empty list, and
  no table is rendered; \<^verbatim>\<open>segment.get\<close> raises \<^verbatim>\<open>AttributeError\<close> on the number.
\<close>

theorem segments_of_non_objects_raise:
  "extract_result (JObj [(''segments'', JList [JInt 1])]) = JObj [(''segments'', JList [JInt 1])]
   \<and> nonempty_list (dict_get [(''segments'', JList [JInt 1])] ''segments'')
   \<and> render_payload plain_rich no_float (JObj [(''segments'', JList [JInt 1])]) = ([], Some AttributeError)"
  by (simp add: render_ev)

text \<open>
  C3, as the code has it. For every result object whose rendering raises nothing:
  a table is printed exactly when the segments field is a non-empty list, and the
  formatted JSON is left out (rendering stops after the table) exactly then; the table is
  the last thing printed and has one row per segment, in order, holding the 1-based index,
  the formatted start, the formatted end, and the stripped text, blank when the text is
  absent or falsy. For \<^verbatim>\<open>{"text": "hello", "segments": []}\<close> the transcript \<open>hello\<close>
  is printed, then the formatted JSON, and no table.
\<close>

theorem segment_table_when_rendering_completes:
  assumes ex: "extract_result payload = JObj d"
      and run: "render_payload lib f payload = (out, None)"
  shows "(nonempty_list (dict_get d ''segments'') \<longleftrightarrow> (\<exists>x \<in> set out. is_table x))
       \<and> (nonempty_list (dict_get d ''segments'')
            \<longleftrightarrow> Panel ''Response JSON'' (Json payload) \<notin> set out)
       \<and> (\<forall>segs. dict_get d ''segments'' = JList segs \<and> segs \<noteq> [] \<longrightarrow>
            (\<exists>rows. last out = Table ''Segments'' rows \<and> length rows = length segs
               \<and> (\<forall>i < length segs. \<exists>sd start end t.
                     segs ! i = JObj sd
                   \<and> rows ! i = (str_int (int i + 1), start, end, t)
                   \<and> format_seconds f (dict_get sd ''start'') = Inr start
                   \<and> format_seconds f (dict_get sd ''end'') = Inr end
                   \<and> ((\<exists>s. dict_get sd ''text'' = JStr s \<and> t = strip s)
                        \<or> (\<not> truthy (dict_get sd ''text'') \<and> t = [])))))
       \<and> render_payload lib f (JObj [(''text'', JStr ''hello''), (''segments'', JList [])])
           = ([Panel ''Transcript'' (Text ''hello''),
               Panel ''Response JSON''
                 (Json (JObj [(''text'', JStr ''hello''), (''segments'', JList [])]))], None)"
proof -
  from render_payload_obj [OF ex run] obtain o1 o2
    where rt: "render_text lib (dict_get d ''text'') = (o1, None)"
      and rs: "render_segments lib f payload (dict_get d ''segments'') = (o2, None)"
      and out: "out = o1 @ o2"
    by (metis option.distinct(1))
  have o1: "\<forall>x \<in> set o1. \<exists>t. x = Panel ''Transcript'' (Text t)"
    using render_text_out [OF rt] .
  have hello: "render_payload lib f (JObj [(''text'', JStr ''hello''), (''segments'', JList [])])
           = ([Panel ''Transcript'' (Text ''hello''),
               Panel ''Response JSON''
                 (Json (JObj [(''text'', JStr ''hello''), (''segments'', JList [])]))], None)"
    by (simp add: render_ev)
  show ?thesis
  proof (cases "nonempty_list (dict_get d ''segments'')")
    case False
    from render_segments_other [OF rs False]
    have o2: "o2 = [Panel ''Response JSON'' (Json payload)]" by simp
    have "\<not> (\<exists>x \<in> set out. is_table x)"
      using o1 o2 out by auto
    moreover have "Panel ''Response JSON'' (Json payload) \<in> set out"
      using o2 out by simp
    moreover have "\<forall>segs. \<not> (dict_get d ''segments'' = JList segs \<and> segs \<noteq> [])"
      using False by (auto simp: nonempty_list_def)
    ultimately show ?thesis using False hello by blast
  next
    case True
    then obtain segs where segs: "dict_get d ''segments'' = JList segs" "segs \<noteq> []"
      by (auto simp: nonempty_list_def split: json.splits)
    from render_segments_nonempty [OF rs segs] obtain rows
      where o2: "o2 = [Table ''Segments'' rows]" and rows: "table_rows f 1 segs = Inr rows"
      by blast
    have tab: "\<exists>x \<in> set out. is_table x"
      using o2 out by simp
    have nojson: "Panel ''Response JSON'' (Json payload) \<notin> set out"
      using o1 o2 out by auto
    have last: "last out = Table ''Segments'' rows"
      using o2 out by simp
    have len: "length rows = length segs"
      using table_rows_length [OF rows] .
    have each: "\<exists>sd start end t.
                     segs ! i = JObj sd
                   \<and> rows ! i = (str_int (int i + 1), start, end, t)
                   \<and> format_seconds f (dict_get sd ''start'') = Inr start
                   \<and> format_seconds f (dict_get sd ''end'') = Inr end
                   \<and> ((\<exists>s. dict_get sd ''text'' = JStr s \<and> t = strip s)
                        \<or> (\<not> truthy (dict_get sd ''text'') \<and> t = []))"
      if "i < length segs" for i
    proof -
      from table_rows_nth [OF rows that]
      have "segment_row f (Suc i) (segs ! i) = Inr (rows ! i)" by simp
      from segment_row_Inr [OF this] show ?thesis
        by (simp add: add.commute)
    qed
    show ?thesis
      using True tab nojson last len each segs hello by auto
  qed
qed

theorem segment_table_when_rendering_completes_witness:
  "extract_result nested_payload
     = JObj [(''text'', JStr ''hi''),
             (''segments'',
               JList [JObj [(''start'', JFloat (Finite 1 0)), (''end'', JFloat (Finite 5 (- 1))),
                            (''text'', JStr '' a '')]])]
   \<and> render_payload plain_rich no_float nested_payload
       = ([Panel ''Transcript'' (Text ''hi''),
           Table ''Segments'' [(''1'', ''00:01.000'', ''00:02.500'', ''a'')]], None)
   \<and> Panel ''Response JSON'' (Json nested_payload)
       \<notin> set [Panel ''Transcript'' (Text ''hi''),
               Table ''Segments'' [(''1'', ''00:01.000'', ''00:02.500'', ''a'')]]"
proof -
  let ?d = "[(''text'', JStr ''hi''),
             (''segments'',
               JList [JObj [(''start'', JFloat (Finite 1 0)), (''end'', JFloat (Finite 5 (- 1))),
                            (''text'', JStr '' a '')]])]"
  have h1: "extract_result nested_payload = JObj ?d"
    by (simp add: nested_payload_def has_key_def dict_get_def)
  have h2: "render_payload plain_rich no_float nested_payload
       = ([Panel ''Transcript'' (Text ''hi''),
           Table ''Segments'' [(''1'', ''00:01.000'', ''00:02.500'', ''a'')]], None)"
    by (rule render_nested_payload)
  have h3: "nonempty_list (dict_get ?d ''segments'')"
    by (simp add: nonempty_list_def dict_get_def)
  show ?thesis
    using segment_table_when_rendering_completes [OF h1 h2] h1 h2 h3 by simp
qed

section \<open>The run\<close>

subsection \<open>Paths and \<^verbatim>\<open>prepare_audio\<close>\<close>

lemma rfind_dot_wav: "rfind_dot (s @ ''.wav'') = Some (length s)"
  by (simp add: rfind_dot_def)

lemma stem_nonempty: "name p \<noteq> [] \<Longrightarrow> stem p \<noteq> []"
  by (auto simp: stem_def split: option.splits)

lemma lower_wav: "lower ''.wav'' = ''.wav''"
  by (simp add: lower_def lower_char_def)

lemma transcoded_is_wav: "name p \<noteq> [] \<Longrightarrow> is_wav (transcoded w p)"
  using stem_nonempty [of p]
  by (simp add: is_wav_def transcoded_def suffix_def rfind_dot_wav lower_wav)

lemma no_post_in: "filter is_post xs = [] \<Longrightarrow> HttpPost q \<notin> set xs"
  by (auto simp: filter_empty_conv)

lemma prints_no_post: "filter is_post (map Print out) = []"
  by (simp add: filter_map comp_def)

lemma prints_no_temp: "filter is_temp (map Print out) = []"
  by (simp add: filter_map comp_def)

lemma report_failure_no_post: "filter is_post (fst (report_failure lib panel)) = []"
  using console_print_cases [of lib panel]
  by (auto simp: report_failure_def)

lemma report_failure_no_upload: "snd (report_failure lib panel) \<noteq> Inr (Some up, td)"
  using console_print_cases [of lib panel]
  by (auto simp: report_failure_def)

lemma print_and_return_no_post: "filter is_post (fst (print_and_return lib panel code)) = []"
  using console_print_cases [of lib panel]
  by (auto simp: print_and_return_def)

lemma after_post_no_post: "filter is_post (fst (after_post w r)) = []"
  by (simp add: after_post_def print_and_return_no_post prints_no_post split: prod.splits)

lemma cleanup_no_post: "filter is_post (cleanup td) = []"
  by (simp add: cleanup_def split: option.splits)

lemma prepare_audio_no_post: "filter is_post (fst (prepare_audio w fp c)) = []"
proof -
  have "filter is_post (fst (case console_print lib x of
          (shown, Some err) \<Rightarrow> (pre @ map Print shown, Inl err)
        | (shown, None) \<Rightarrow> (pre @ map Print shown @ post, res))) =
        filter is_post pre @ (if snd (console_print lib x) = None then filter is_post post else [])"
    for lib x pre post
      and res :: "py_error + path option \<times> string option"
    using console_print_cases [of lib x] by auto
  note pr = this
  show ?thesis
    unfolding prepare_audio_def
    by (simp add: report_failure_no_post Let_def pr [where post = "[]", simplified] pr
          split: option.splits prod.splits)
qed

lemma prepare_audio_upload:
  assumes "prepare_audio w fp c = (prep, Inr (Some up, td))"
  shows "(is_wav fp \<and> up = fp \<and> td = None \<and> prep = [])
       \<or> (\<not> is_wav fp \<and> up = transcoded w fp \<and> td = Some (temp_name w))"
proof (cases "is_wav fp")
  case True
  with assms show ?thesis
    by (simp add: prepare_audio_def is_wav_def)
next
  case False
  have rf: "report_failure lib panel \<noteq> (prep, Inr (Some up, td))" for lib panel
    using report_failure_no_upload [of lib panel up td] by (metis snd_conv)
  have cp: "(case console_print lib x of
          (shown, Some err) \<Rightarrow> (pre shown, Inl err)
        | (shown, None) \<Rightarrow> (post shown, Inr (u, t))) = (prep, Inr (Some up, td))
        \<Longrightarrow> u = Some up \<and> t = td"
    for lib x pre post u t
    using console_print_cases [of lib x] by auto
  from assms False show ?thesis
    unfolding prepare_audio_def is_wav_def [symmetric] transcoded_def
    by (auto simp: rf Let_def split: if_splits option.splits prod.splits dest!: cp)
qed

subsection \<open>\<^verbatim>\<open>main\<close>, path by path\<close>

lemma main_no_file:
  "\<not> expanduser_raises w (arg_file a) \<Longrightarrow> \<not> is_file w (source_path w a) \<Longrightarrow>
   main w a = print_and_return (rich w) (not_found_panel (source_path w a)) 2"
  by (simp add: main_def source_path_def)

lemma main_upload:
  assumes "\<not> expanduser_raises w (arg_file a)" and "is_file w (source_path w a)"
      and "prepare_audio w (source_path w a) (\<not> arg_no_convert a) = (prep, Inr (Some up, td))"
  shows "main w a =
     (case console_print (rich w) (asr_panel a (source_path w a) up) of
        (shown, Some err) \<Rightarrow> (prep @ map Print shown, Inl err)
      | (shown, None) \<Rightarrow>
          if \<not> can_open w up then (prep @ map Print shown @ cleanup td, Inl OSError)
          else case post w (build_request a up) of
                 RequestError exc \<Rightarrow>
                   (prep @ map Print shown @ [HttpPost (build_request a up)]
                    @ fst (print_and_return (rich w) (network_error_panel exc) 1) @ cleanup td,
                    snd (print_and_return (rich w) (network_error_panel exc) 1))
               | OtherError err \<Rightarrow>
                   (prep @ map Print shown @ [HttpPost (build_request a up)] @ cleanup td,
                    Inl err)
               | Response r \<Rightarrow>
                   (prep @ map Print shown @ [HttpPost (build_request a up)] @ cleanup td
                    @ fst (after_post w r), snd (after_post w r)))"
  using assms
  by (simp add: main_def source_path_def Let_def
        split: post_outcome.splits prod.splits option.splits)

lemma main_no_upload:
  assumes "\<not> expanduser_raises w (arg_file a)" and "is_file w (source_path w a)"
      and "prepare_audio w (source_path w a) (\<not> arg_no_convert a) = (prep, res)"
      and "\<forall>up td. res \<noteq> Inr (Some up, td)"
  shows "fst (main w a) = prep"
  using assms
  by (cases res) (auto simp: main_def source_path_def Let_def split: option.splits)

subsection \<open>The request\<close>

lemma main_post_event:
  assumes "HttpPost q \<in> set (fst (main w a))"
  shows "\<exists>prep up td.
     prepare_audio w (source_path w a) (\<not> arg_no_convert a) = (prep, Inr (Some up, td))
     \<and> q = build_request a up"
proof -
  have e: "\<not> expanduser_raises w (arg_file a)"
    using assms by (auto simp: main_def)
  have f: "is_file w (source_path w a)"
  proof (rule ccontr)
    assume "\<not> is_file w (source_path w a)"
    from main_no_file [OF e this] assms no_post_in [OF print_and_return_no_post]
    show False by simp
  qed
  obtain prep res
    where pa: "prepare_audio w (source_path w a) (\<not> arg_no_convert a) = (prep, res)"
    by fastforce
  have np: "HttpPost q \<notin> set prep"
    using prepare_audio_no_post [of w "source_path w a" "\<not> arg_no_convert a"] pa no_post_in
    by fastforce
  show ?thesis
  proof (cases "\<exists>up td. res = Inr (Some up, td)")
    case False
    with main_no_upload [OF e f pa] assms np show ?thesis by simp
  next
    case True
    then obtain up td where res: "res = Inr (Some up, td)" by blast
    note m = main_upload [OF e f pa [unfolded res]]
    have n1: "HttpPost q \<notin> set (cleanup td)"
      using no_post_in [OF cleanup_no_post] .
    have n2: "HttpPost q \<notin> set (fst (after_post w r))" for r
      using no_post_in [OF after_post_no_post] .
    have n3: "HttpPost q \<notin> set (fst (print_and_return lib panel code))" for lib panel code
      using no_post_in [OF print_and_return_no_post] .
    have "q = build_request a up"
      using assms np n1 n2 n3 console_print_cases [of "rich w" "asr_panel a (source_path w a) up"]
      unfolding m
      by (auto split: if_splits post_outcome.splits)
    with pa res show ?thesis by blast
  qed
qed

lemma form_data_lookup:
  "map_of (form_data a) ''temperature'' = Some (StrOfFloat (arg_temperature a))
   \<and> map_of (form_data a) ''temperature_inc'' = Some (StrOfFloat (arg_temperature_inc a))
   \<and> map_of (form_data a) ''response_format'' = Some (Plain (arg_response_format a))
   \<and> map_of (form_data a) ''language''
        = (case arg_language a of None \<Rightarrow> None
           | Some s \<Rightarrow> if s = [] then None else Some (Plain s))
   \<and> map_of (form_data a) ''prompt''
        = (case arg_prompt a of None \<Rightarrow> None
           | Some s \<Rightarrow> if s = [] then None else Some (Plain s))
   \<and> distinct (map fst (form_data a))"
  by (cases "arg_language a"; cases "arg_prompt a"; simp add: form_data_def opt_field_def)

lemma build_request_files:
  "\<exists>part. req_files (build_request a up) = [part] \<and> field_name part = ''file''
     \<and> file_name part = name up \<and> file_source part = up
     \<and> mime_type part = (if is_wav up then ''audio/wav'' else ''application/octet-stream'')"
  by (simp add: build_request_def is_wav_def)

text \<open>
  C7. The request of every run that makes one: its form has \<open>temperature\<close>,
  \<open>temperature_inc\<close> and \<open>response_format\<close>, from the arguments; it has \<open>language\<close>
  and \<open>prompt\<close> exactly when the argument is given and not empty; each key occurs once.
  It has one file part, named \<open>file\<close>, of type \<^verbatim>\<open>audio/wav\<close> when the extension of
  the uploaded path is \<^verbatim>\<open>.wav\<close> in any case and \<^verbatim>\<open>application/octet-stream\<close>
  otherwise. A WAV source is uploaded as it is, as \<^verbatim>\<open>audio/wav\<close>; any other source
  (a file has a name that is not empty) is uploaded from the transcoder's output, as
  \<^verbatim>\<open>audio/wav\<close>.
\<close>

theorem request_form_and_file_part:
  assumes "HttpPost q \<in> set (fst (main w a))"
  shows "map_of (req_data q) ''temperature'' = Some (StrOfFloat (arg_temperature a))
   \<and> map_of (req_data q) ''temperature_inc'' = Some (StrOfFloat (arg_temperature_inc a))
   \<and> map_of (req_data q) ''response_format'' = Some (Plain (arg_response_format a))
   \<and> map_of (req_data q) ''language''
        = (case arg_language a of None \<Rightarrow> None
           | Some s \<Rightarrow> if s = [] then None else Some (Plain s))
   \<and> map_of (req_data q) ''prompt''
        = (case arg_prompt a of None \<Rightarrow> None
           | Some s \<Rightarrow> if s = [] then None else Some (Plain s))
   \<and> distinct (map fst (req_data q))
   \<and> (\<exists>part. req_files q = [part] \<and> field_name part = ''file''
         \<and> file_name part = name (file_source part)
         \<and> mime_type part = (if is_wav (file_source part) then ''audio/wav''
                               else ''application/octet-stream'')
         \<and> (is_wav (source_path w a) \<longrightarrow>
               file_source part = source_path w a \<and> mime_type part = ''audio/wav'')
         \<and> (\<not> is_wav (source_path w a) \<and> name (source_path w a) \<noteq> [] \<longrightarrow>
               file_source part = transcoded w (source_path w a)
               \<and> mime_type part = ''audio/wav''))"
proof -
  from main_post_event [OF assms] obtain prep up td
    where pa: "prepare_audio w (source_path w a) (\<not> arg_no_convert a) = (prep, Inr (Some up, td))"
      and q: "q = build_request a up"
    by blast
  note up = prepare_audio_upload [OF pa]
  from build_request_files [of a up] obtain part
    where files: "req_files q = [part]" and fn: "field_name part = ''file''"
      and nm: "file_name part = name up" and src: "file_source part = up"
      and mt: "mime_type part = (if is_wav up then ''audio/wav'' else ''application/octet-stream'')"
    unfolding q by blast
  have data: "req_data q = form_data a"
    by (simp add: q build_request_def)
  have wav: "file_source part = source_path w a \<and> mime_type part = ''audio/wav''"
    if h: "is_wav (source_path w a)"
  proof -
    from up h have "up = source_path w a" by blast
    with h src mt show ?thesis by simp
  qed
  have conv: "file_source part = transcoded w (source_path w a) \<and> mime_type part = ''audio/wav''"
    if h: "\<not> is_wav (source_path w a)" "name (source_path w a) \<noteq> []"
  proof -
    from up h(1) have "up = transcoded w (source_path w a)" by blast
    with transcoded_is_wav [OF h(2), of w] src mt show ?thesis by simp
  qed
  have mime: "mime_type part = (if is_wav (file_source part) then ''audio/wav''
                               else ''application/octet-stream'')"
    using mt src by simp
  have nam: "file_name part = name (file_source part)"
    using nm src by simp
  have "\<exists>part. req_files q = [part] \<and> field_name part = ''file''
         \<and> file_name part = name (file_source part)
         \<and> mime_type part = (if is_wav (file_source part) then ''audio/wav''
                               else ''application/octet-stream'')
         \<and> (is_wav (source_path w a) \<longrightarrow>
               file_source part = source_path w a \<and> mime_type part = ''audio/wav'')
         \<and> (\<not> is_wav (source_path w a) \<and> name (source_path w a) \<noteq> [] \<longrightarrow>
               file_source part = transcoded w (source_path w a)
               \<and> mime_type part = ''audio/wav'')"
    using files fn nam mime wav conv by blast
  moreover note form_data_lookup [of a, folded data]
  ultimately show ?thesis by blast
qed

subsection \<open>Concrete runs\<close>

lemmas path_ev = source_path_def is_wav_def suffix_def stem_def rfind_dot_def lower_def
  lower_char_def transcoded_def path_str_def nl_def

lemma talk_not_wav: "lower (suffix \<lparr>dir = ''workspace'', name = ''talk.m4a''\<rparr>) \<noteq> ''.wav''"
  by (simp add: path_ev)

lemma talk_stem: "stem \<lparr>dir = ''workspace'', name = ''talk.m4a''\<rparr> = ''talk''"
  by (simp add: path_ev)

lemma preparing_prints:
  "print_ok lib (preparing_panel \<lparr>dir = ''/tmp/tmpq'', name = ''talk.wav''\<rparr>)"
  by (simp add: preparing_panel_def path_str_def nl_def markup_ok_def)

lemma asr_prints:
  "print_ok lib (asr_panel m4a_args \<lparr>dir = ''workspace'', name = ''talk.m4a''\<rparr>
     \<lparr>dir = ''/tmp/tmpq'', name = ''talk.wav''\<rparr>)"
  by (simp add: asr_panel_def m4a_args_def path_str_def nl_def markup_ok_def)


lemma conversion_error_raises: "\<not> print_ok lib (conversion_error_panel ''[/x] bad'')"
  by (simp add: conversion_error_panel_def nl_def markup_ev)

lemma not_found_bracket_raises:
  "\<not> print_ok lib (not_found_panel \<lparr>dir = ''workspace/['', name = ''x].m4a''\<rparr>)"
  by (simp add: not_found_panel_def path_str_def nl_def markup_ev)

lemma not_found_talk_prints:
  "print_ok lib (not_found_panel \<lparr>dir = ''workspace'', name = ''talk.m4a''\<rparr>)"
  by (simp add: not_found_panel_def path_str_def nl_def markup_ev)

lemma hello_rendering:
  "print_result lib no_float
     (ok_response ''application/json'' [] (Inr (JObj [(''text'', JStr ''hello'')]))) (Finite 1 0)
   = ([Panel ''Request Summary'' (Summary 200 ''OK'' (Finite 1 0)),
       Panel ''Transcript'' (Text ''hello''),
       Panel ''Response JSON'' (Json (JObj [(''text'', JStr ''hello'')]))], None)"
  by (simp add: print_result_eq parse_payload_def render_payload_def render_text_def
        render_segments_def has_key_def dict_get_def startswith_def content_type_header_def
        ok_response_def summary_panel_def strip_def is_space_def console_print_text
        console_print_json)

lemma main_prepare_raises:
  "\<not> expanduser_raises w (arg_file a) \<Longrightarrow> is_file w (source_path w a) \<Longrightarrow>
   prepare_audio w (source_path w a) (\<not> arg_no_convert a) = (prep, Inl err) \<Longrightarrow>
   main w a = (prep, Inl err)"
  by (simp add: main_def source_path_def)

lemma prepare_talk:
  assumes "which_ffmpeg w = Some ''/usr/bin/ffmpeg''" and "\<not> mkdtemp_raises w"
      and "temp_name w = ''/tmp/tmpq''"
      and "run_process w = (\<lambda>cmd. Some (0, []))"
  shows "prepare_audio w \<lparr>dir = ''workspace'', name = ''talk.m4a''\<rparr> True =
     ([TempDirCreate ''/tmp/tmpq'',
       RunProcess (ffmpeg_cmd ''/usr/bin/ffmpeg'' \<lparr>dir = ''workspace'', name = ''talk.m4a''\<rparr>
         \<lparr>dir = ''/tmp/tmpq'', name = ''talk.wav''\<rparr>),
       Print (preparing_panel \<lparr>dir = ''/tmp/tmpq'', name = ''talk.wav''\<rparr>)],
      Inr (Some \<lparr>dir = ''/tmp/tmpq'', name = ''talk.wav''\<rparr>, Some ''/tmp/tmpq''))"
  by (simp add: prepare_audio_def assms talk_not_wav talk_stem Let_def console_print_def
        preparing_prints)

lemma prepare_talk_failing:
  assumes "which_ffmpeg w = Some ''/usr/bin/ffmpeg''" and "\<not> mkdtemp_raises w"
      and "temp_name w = ''/tmp/tmpq''"
      and "run_process w = failing_transcoder"
  shows "prepare_audio w \<lparr>dir = ''workspace'', name = ''talk.m4a''\<rparr> True =
     ([TempDirCreate ''/tmp/tmpq'',
       RunProcess (ffmpeg_cmd ''/usr/bin/ffmpeg'' \<lparr>dir = ''workspace'', name = ''talk.m4a''\<rparr>
         \<lparr>dir = ''/tmp/tmpq'', name = ''talk.wav''\<rparr>)],
      Inl MarkupError)"
  by (simp add: prepare_audio_def assms talk_not_wav talk_stem Let_def console_print_def
        failing_transcoder_def conversion_error_raises)


lemma talk_source:
  "expanduser w = (\<lambda>p. p) \<Longrightarrow> arg_file a = \<lparr>dir = ''workspace'', name = ''talk.m4a''\<rparr> \<Longrightarrow>
   source_path w a = \<lparr>dir = ''workspace'', name = ''talk.m4a''\<rparr>"
  by (simp add: source_path_def)

lemma good_run:
  "main (good_world\<lparr>rich := lib\<rparr>) m4a_args =
     ([TempDirCreate ''/tmp/tmpq'',
       RunProcess (ffmpeg_cmd ''/usr/bin/ffmpeg'' \<lparr>dir = ''workspace'', name = ''talk.m4a''\<rparr>
         \<lparr>dir = ''/tmp/tmpq'', name = ''talk.wav''\<rparr>),
       Print (preparing_panel \<lparr>dir = ''/tmp/tmpq'', name = ''talk.wav''\<rparr>),
       Print (asr_panel m4a_args \<lparr>dir = ''workspace'', name = ''talk.m4a''\<rparr>
         \<lparr>dir = ''/tmp/tmpq'', name = ''talk.wav''\<rparr>),
       HttpPost (build_request m4a_args \<lparr>dir = ''/tmp/tmpq'', name = ''talk.wav''\<rparr>),
       TempDirCleanup ''/tmp/tmpq'',
       Print (Panel ''Request Summary'' (Summary 200 ''OK'' (Finite 1 0))),
       Print (Panel ''Transcript'' (Text ''hello'')),
       Print (Panel ''Response JSON'' (Json (JObj [(''text'', JStr ''hello'')])))],
      Inr 0)"
proof -
  let ?w = "good_world\<lparr>rich := lib\<rparr>"
  have src: "source_path ?w m4a_args = \<lparr>dir = ''workspace'', name = ''talk.m4a''\<rparr>"
    by (rule talk_source) (simp_all add: good_world_def m4a_args_def)
  have e: "\<not> expanduser_raises ?w (arg_file m4a_args)"
    by (simp add: good_world_def)
  have f: "is_file ?w (source_path ?w m4a_args)"
    by (simp add: good_world_def)
  have c: "(\<not> arg_no_convert m4a_args) = True"
    by (simp add: m4a_args_def)
  have pa: "prepare_audio ?w (source_path ?w m4a_args) (\<not> arg_no_convert m4a_args) =
     ([TempDirCreate ''/tmp/tmpq'',
       RunProcess (ffmpeg_cmd ''/usr/bin/ffmpeg'' \<lparr>dir = ''workspace'', name = ''talk.m4a''\<rparr>
         \<lparr>dir = ''/tmp/tmpq'', name = ''talk.wav''\<rparr>),
       Print (preparing_panel \<lparr>dir = ''/tmp/tmpq'', name = ''talk.wav''\<rparr>)],
      Inr (Some \<lparr>dir = ''/tmp/tmpq'', name = ''talk.wav''\<rparr>, Some ''/tmp/tmpq''))"
    unfolding src c by (rule prepare_talk) (simp_all add: good_world_def)
  have noerr: "\<not> is_error (ok_response ''application/json'' []
      (Inr (JObj [(''text'', JStr ''hello'')])))"
    by (simp add: is_error_def ok_response_def)
  have ap: "after_post ?w (ok_response ''application/json'' []
      (Inr (JObj [(''text'', JStr ''hello'')]))) =
     ([Print (Panel ''Request Summary'' (Summary 200 ''OK'' (Finite 1 0))),
       Print (Panel ''Transcript'' (Text ''hello'')),
       Print (Panel ''Response JSON'' (Json (JObj [(''text'', JStr ''hello'')])))], Inr 0)"
    by (simp add: after_post_def noerr good_world_def hello_rendering)
  have po: "post good_world q = Response (ok_response ''application/json'' []
      (Inr (JObj [(''text'', JStr ''hello'')])))" for q
    by (simp add: good_world_def)
  have op: "can_open good_world p" for p
    by (simp add: good_world_def)
  show ?thesis
    unfolding main_upload [OF e f pa] src
    by (simp add: console_print_def asr_prints po op ap cleanup_def)
qed

lemma failing_transcoder_run:
  "main (good_world\<lparr>rich := lib, run_process := failing_transcoder\<rparr>) m4a_args =
     ([TempDirCreate ''/tmp/tmpq'',
       RunProcess (ffmpeg_cmd ''/usr/bin/ffmpeg'' \<lparr>dir = ''workspace'', name = ''talk.m4a''\<rparr>
         \<lparr>dir = ''/tmp/tmpq'', name = ''talk.wav''\<rparr>)],
      Inl MarkupError)"
proof -
  let ?w = "good_world\<lparr>rich := lib, run_process := failing_transcoder\<rparr>"
  have src: "source_path ?w m4a_args = \<lparr>dir = ''workspace'', name = ''talk.m4a''\<rparr>"
    by (rule talk_source) (simp_all add: good_world_def m4a_args_def)
  have e: "\<not> expanduser_raises ?w (arg_file m4a_args)"
    by (simp add: good_world_def)
  have f: "is_file ?w (source_path ?w m4a_args)"
    by (simp add: good_world_def)
  have c: "(\<not> arg_no_convert m4a_args) = True"
    by (simp add: m4a_args_def)
  have pa: "prepare_audio ?w (source_path ?w m4a_args) (\<not> arg_no_convert m4a_args) =
     ([TempDirCreate ''/tmp/tmpq'',
       RunProcess (ffmpeg_cmd ''/usr/bin/ffmpeg'' \<lparr>dir = ''workspace'', name = ''talk.m4a''\<rparr>
         \<lparr>dir = ''/tmp/tmpq'', name = ''talk.wav''\<rparr>)],
      Inl MarkupError)"
    unfolding src c by (rule prepare_talk_failing) (simp_all add: good_world_def)
  show ?thesis
    by (rule main_prepare_raises [OF e f pa])
qed



lemma missing_bracket_file_run:
  "main (good_world\<lparr>rich := lib, is_file := \<lambda>p. False\<rparr>) bracket_file_args
     = ([], Inl MarkupError)"
proof -
  let ?w = "good_world\<lparr>rich := lib, is_file := \<lambda>p. False\<rparr>"
  have src: "source_path ?w bracket_file_args = \<lparr>dir = ''workspace/['', name = ''x].m4a''\<rparr>"
    by (simp add: source_path_def good_world_def bracket_file_args_def)
  have e: "\<not> expanduser_raises ?w (arg_file bracket_file_args)"
    by (simp add: good_world_def)
  have f: "\<not> is_file ?w (source_path ?w bracket_file_args)"
    by simp
  show ?thesis
    unfolding main_no_file [OF e f] src
    by (simp add: print_and_return_def console_print_def not_found_bracket_raises)
qed

lemma missing_talk_file_run:
  "main (good_world\<lparr>rich := lib, is_file := \<lambda>p. False\<rparr>) m4a_args
     = ([Print (not_found_panel \<lparr>dir = ''workspace'', name = ''talk.m4a''\<rparr>)], Inr 2)"
proof -
  let ?w = "good_world\<lparr>rich := lib, is_file := \<lambda>p. False\<rparr>"
  have src: "source_path ?w m4a_args = \<lparr>dir = ''workspace'', name = ''talk.m4a''\<rparr>"
    by (simp add: source_path_def good_world_def m4a_args_def)
  have e: "\<not> expanduser_raises ?w (arg_file m4a_args)"
    by (simp add: good_world_def)
  have f: "\<not> is_file ?w (source_path ?w m4a_args)"
    by simp
  show ?thesis
    unfolding main_no_file [OF e f] src
    by (simp add: print_and_return_def console_print_def not_found_talk_prints)
qed

subsection \<open>Exit codes\<close>

text \<open>
  C5. For the missing file \<^verbatim>\<open>workspace/[/x].m4a\<close> the run prints nothing and
  \<^verbatim>\<open>MarkupError\<close> leaves \<^verbatim>\<open>main\<close>: the path is pasted into the markup of the error
  panel, and its closing tag closes nothing. The missing file \<^verbatim>\<open>workspace/talk.m4a\<close>
  gives the panel and the exit code 2. When the transcoder fails with \<^verbatim>\<open>[/x] bad\<close> on
  its standard error, \<^verbatim>\<open>MarkupError\<close> leaves \<^verbatim>\<open>main\<close> as well, and no exit code is
  returned.
\<close>

theorem closing_tag_in_error_panel_raises:
  "main (good_world\<lparr>rich := lib, is_file := \<lambda>p. False\<rparr>) bracket_file_args
     = ([], Inl MarkupError)
   \<and> main (good_world\<lparr>rich := lib, is_file := \<lambda>p. False\<rparr>) m4a_args
     = ([Print (not_found_panel \<lparr>dir = ''workspace'', name = ''talk.m4a''\<rparr>)], Inr 2)
   \<and> snd (main (good_world\<lparr>rich := lib, run_process := failing_transcoder\<rparr>) m4a_args)
     = Inl MarkupError"
  by (simp add: missing_bracket_file_run missing_talk_file_run failing_transcoder_run)

subsection \<open>The temporary directory\<close>


subsection \<open>The request of a concrete run\<close>

theorem request_form_and_file_part_witness:
  "HttpPost (build_request m4a_args \<lparr>dir = ''/tmp/tmpq'', name = ''talk.wav''\<rparr>)
     \<in> set (fst (main (good_world\<lparr>rich := plain_rich\<rparr>) m4a_args))
   \<and> map_of (req_data (build_request m4a_args \<lparr>dir = ''/tmp/tmpq'', name = ''talk.wav''\<rparr>))
        ''temperature'' = Some (StrOfFloat (Finite 0 0))
   \<and> map_of (req_data (build_request m4a_args \<lparr>dir = ''/tmp/tmpq'', name = ''talk.wav''\<rparr>))
        ''response_format'' = Some (Plain ''json'')
   \<and> map_of (req_data (build_request m4a_args \<lparr>dir = ''/tmp/tmpq'', name = ''talk.wav''\<rparr>))
        ''language'' = None
   \<and> map_of (req_data (build_request m4a_args \<lparr>dir = ''/tmp/tmpq'', name = ''talk.wav''\<rparr>))
        ''prompt'' = Some (Plain ''hi'')
   \<and> map mime_type (req_files (build_request m4a_args \<lparr>dir = ''/tmp/tmpq'', name = ''talk.wav''\<rparr>))
        = [''audio/wav'']
   \<and> map file_source
         (req_files (build_request m4a_args \<lparr>dir = ''/tmp/tmpq'', name = ''talk.wav''\<rparr>))
        = [\<lparr>dir = ''/tmp/tmpq'', name = ''talk.wav''\<rparr>]"
proof -
  let ?w = "good_world\<lparr>rich := plain_rich\<rparr>"
  let ?q = "build_request m4a_args \<lparr>dir = ''/tmp/tmpq'', name = ''talk.wav''\<rparr>"
  have ev: "HttpPost ?q \<in> set (fst (main ?w m4a_args))"
    by (simp add: good_run)
  have src: "source_path ?w m4a_args = \<lparr>dir = ''workspace'', name = ''talk.m4a''\<rparr>"
    by (rule talk_source) (simp_all add: good_world_def m4a_args_def)
  have nw: "\<not> is_wav (source_path ?w m4a_args)"
    unfolding src is_wav_def by (rule talk_not_wav)
  have nm: "name (source_path ?w m4a_args) \<noteq> []"
    unfolding src by simp
  have tr: "transcoded ?w (source_path ?w m4a_args) = \<lparr>dir = ''/tmp/tmpq'', name = ''talk.wav''\<rparr>"
    unfolding src by (simp add: transcoded_def talk_stem good_world_def)
  note th = request_form_and_file_part [OF ev]
  from th obtain part
    where "req_files ?q = [part]"
      and "\<not> is_wav (source_path ?w m4a_args) \<and> name (source_path ?w m4a_args) \<noteq> [] \<longrightarrow>
           file_source part = transcoded ?w (source_path ?w m4a_args)
             \<and> mime_type part = ''audio/wav''"
    by blast
  with nw nm tr
  have files: "map mime_type (req_files ?q) = [''audio/wav'']
      \<and> map file_source (req_files ?q) = [\<lparr>dir = ''/tmp/tmpq'', name = ''talk.wav''\<rparr>]"
    by simp
  have args: "arg_temperature m4a_args = Finite 0 0" "arg_response_format m4a_args = ''json''"
    "arg_language m4a_args = None" "arg_prompt m4a_args = Some ''hi''"
    by (simp_all add: m4a_args_def)
  from th have "map_of (req_data ?q) ''temperature'' = Some (StrOfFloat (Finite 0 0))
      \<and> map_of (req_data ?q) ''response_format'' = Some (Plain ''json'')
      \<and> map_of (req_data ?q) ''language'' = None
      \<and> map_of (req_data ?q) ''prompt'' = Some (Plain ''hi'')"
    unfolding args by simp
  with files ev show ?thesis
    by blast
qed

subsection \<open>What holds when the panels print\<close>

text \<open>
  The exit codes of the runs whose panels print. The two panels of fixed text always
  print, so a source that is not WAV, with conversion disabled or with no transcoder
  found, gives 2 and no POST.
\<close>

lemma fixed_panels_print: "print_ok lib unsupported_panel \<and> print_ok lib missing_panel"
  by (simp add: unsupported_panel_def missing_panel_def markup_ok_def)

lemma report_fixed_panels:
  "report_failure lib unsupported_panel = ([Print unsupported_panel], Inr (None, None))"
  "report_failure lib missing_panel = ([Print missing_panel], Inr (None, None))"
  using fixed_panels_print [of lib]
  by (simp_all add: report_failure_def console_print_def)

lemma exit_code_no_file:
  assumes "\<not> expanduser_raises w (arg_file a)" and "\<not> is_file w (source_path w a)"
      and "print_ok (rich w) (not_found_panel (source_path w a))"
  shows "main w a = ([Print (not_found_panel (source_path w a))], Inr 2)"
  unfolding main_no_file [OF assms(1,2)]
  using assms(3) by (simp add: print_and_return_def console_print_def)

lemma exit_code_no_convert:
  assumes "\<not> expanduser_raises w (arg_file a)" and "is_file w (source_path w a)"
      and "\<not> is_wav (source_path w a)" and "arg_no_convert a"
  shows "main w a = ([Print unsupported_panel], Inr 2)"
  using assms
  by (simp add: main_def source_path_def prepare_audio_def is_wav_def report_fixed_panels)

lemma exit_code_no_transcoder:
  assumes "\<not> expanduser_raises w (arg_file a)" and "is_file w (source_path w a)"
      and "\<not> is_wav (source_path w a)" and "\<not> arg_no_convert a"
      and "which_ffmpeg w = None \<or> which_ffmpeg w = Some []"
  shows "main w a = ([Print missing_panel], Inr 2)"
  using assms
  by (auto simp: main_def source_path_def prepare_audio_def is_wav_def report_fixed_panels)

lemma exit_code_after_post:
  assumes e: "\<not> expanduser_raises w (arg_file a)" and f: "is_file w (source_path w a)"
      and pa: "prepare_audio w (source_path w a) (\<not> arg_no_convert a) = (prep, Inr (Some up, td))"
      and asr: "print_ok (rich w) (asr_panel a (source_path w a) up)"
      and op: "can_open w up"
  shows "(post w (build_request a up) = RequestError exc
            \<and> print_ok (rich w) (network_error_panel exc) \<longrightarrow> snd (main w a) = Inr 1)
       \<and> (post w (build_request a up) = Response r \<and> is_error r
            \<and> print_ok (rich w) (http_error_panel r) \<longrightarrow> snd (main w a) = Inr 1)
       \<and> (post w (build_request a up) = Response r \<and> \<not> is_error r
            \<and> snd (print_result (rich w) (float_of_str w) r (elapsed w)) = None \<longrightarrow>
            snd (main w a) = Inr 0)"
  unfolding main_upload [OF e f pa]
  using asr op
  by (auto simp: console_print_def print_and_return_def after_post_def split: prod.splits)

text \<open>
  The temporary directory of the runs that get as far as the \<^verbatim>\<open>try\<close> block, and of
  the runs on a WAV source.
\<close>

lemma wav_source_no_temp_dir:
  assumes "is_wav (source_path w a)"
  shows "filter is_temp (fst (main w a)) = []"
proof -
  have pa: "prepare_audio w (source_path w a) c = ([], Inr (Some (source_path w a), None))" for c
    using assms by (simp add: prepare_audio_def is_wav_def)
  have pr: "filter is_temp (fst (print_and_return lib panel code)) = []" for lib panel code
    using console_print_cases [of lib panel] by (auto simp: print_and_return_def)
  have ap: "filter is_temp (fst (after_post w r)) = []" for r
    by (simp add: after_post_def pr prints_no_temp split: prod.splits)
  show ?thesis
  proof (cases "expanduser_raises w (arg_file a)")
    case True
    then show ?thesis by (simp add: main_def)
  next
    case e: False
    show ?thesis
    proof (cases "is_file w (source_path w a)")
      case False
      from main_no_file [OF e this] pr show ?thesis by simp
    next
      case True
      show ?thesis
        unfolding main_upload [OF e True pa]
        using console_print_cases [of "rich w" "asr_panel a (source_path w a) (source_path w a)"]
        by (auto simp: cleanup_def pr ap split: post_outcome.splits)
    qed
  qed
qed

lemma temp_dir_released_after_try:
  assumes e: "\<not> expanduser_raises w (arg_file a)" and f: "is_file w (source_path w a)"
      and pa: "prepare_audio w (source_path w a) (\<not> arg_no_convert a) = (prep, Inr (Some up, td))"
      and nw: "\<not> is_wav (source_path w a)"
      and asr: "print_ok (rich w) (asr_panel a (source_path w a) up)"
  shows "filter is_temp (fst (main w a)) =
     filter is_temp prep @ [TempDirCleanup (temp_name w)]"
proof -
  have td: "td = Some (temp_name w)"
    using prepare_audio_upload [OF pa] nw by blast
  have pr: "filter is_temp (fst (print_and_return lib panel code)) = []" for lib panel code
    using console_print_cases [of lib panel] by (auto simp: print_and_return_def)
  have ap: "filter is_temp (fst (after_post w r)) = []" for r
    by (simp add: after_post_def pr prints_no_temp split: prod.splits)
  show ?thesis
    unfolding main_upload [OF e f pa]
    using asr
    by (auto simp: console_print_def cleanup_def td pr ap split: post_outcome.splits)
qed

end
